theory Spec2Isabelle
  imports Complex_Main "HOL-Library.AList"
begin

section \<open>Exceptions, numbers and arrays\<close>

text \<open>
  The module \<^verbatim>\<open>polar2grid/mirs/mirs2swath.py\<close> raises Python's built-in exceptions. Each
  \<^verbatim>\<open>raise\<close> of the module is a constructor of its own, so that the failures the
  specification names stay apart:
  \<^item> \<open>ValueError_UnknownFormat\<close>: "Unknown file format for file ..." (FormatValidationError);
  \<^item> \<open>ValueError_Frequency\<close>: "Frequency ... does not exist" (ChannelNotFoundError);
  \<^item> \<open>RuntimeError_Finalized\<close>: "File reader has been finalized ..." (LifecycleError);
  \<^item> \<open>RuntimeError_NoUsableFiles\<close>: "No useable files provided or found" (NoUsableFilesError);
  \<^item> \<open>NotImplementedError_Nprocs\<close>: "... does not support multiple processes yet"
    (UnsupportedConcurrencyError);
  \<^item> \<open>NotImplementedError_Dependencies\<close>: "Don't know how to handle products dependent on
    other products" (UnsupportedDependencyError).
  The others are raised by the interpreter or a library: a missing dictionary key, a missing
  attribute, an index out of range, a file that cannot be opened, \<^verbatim>\<open>float(None)\<close>,
  \<^verbatim>\<open>raise NotImplemented\<close> (a \<open>TypeError\<close>: \<^verbatim>\<open>NotImplemented\<close> is no exception), the truth
  value of an array with more than one element and \<^verbatim>\<open>list.index\<close> of an absent element
  (both \<open>ValueError\<close>).
\<close>

datatype error =
    ValueError_UnknownFormat string
  | ValueError_Frequency
  | ValueError
  | RuntimeError_Finalized
  | RuntimeError_NoUsableFiles
  | NotImplementedError_Nprocs
  | NotImplementedError_Dependencies
  | KeyError string
  | AttributeError string
  | TypeError
  | IndexError
  | IOError string

text \<open>
  Array elements are \<^verbatim>\<open>numpy.float32\<close> values. The model keeps the one distinction the
  module depends on, a number or not-a-number: a number is an exact real (rounding, infinities
  and signed zeros are outside the model). \<open>fdiv\<close> is the elementwise \<^verbatim>\<open>/\<close> by a Python
  float and \<open>feq\<close> the elementwise \<^verbatim>\<open>==\<close> (never true of NaN).
\<close>

datatype f32 = F real | NaN

fun fdiv :: "f32 \<Rightarrow> real \<Rightarrow> f32" where
  "fdiv (F x) s = F (x / s)"
| "fdiv NaN s = NaN"

fun feq :: "f32 \<Rightarrow> real \<Rightarrow> bool" where
  "feq (F x) v = (x = v)"
| "feq NaN v = False"

text \<open>A numpy array: its shape and its elements in row-major order.\<close>

record ndarray =
  shape :: "nat list"
  elems :: "f32 list"

definition array_div :: "ndarray \<Rightarrow> real \<Rightarrow> ndarray" where
  "array_div a s = a\<lparr>elems := map (\<lambda>x. fdiv x s) (elems a)\<rparr>"

text \<open>\<^verbatim>\<open>a[a == v] = fill\<close>\<close>

definition array_fill_where_eq :: "ndarray \<Rightarrow> real \<Rightarrow> f32 \<Rightarrow> ndarray" where
  "array_fill_where_eq a v fill = a\<lparr>elems := map (\<lambda>x. if feq x v then fill else x) (elems a)\<rparr>"

text \<open>
  \<^verbatim>\<open>numpy.nonzero(a == v)[0]\<close>: the first-axis index of every element equal to \<open>v\<close>, in
  row-major order.
\<close>

definition nonzero0 :: "ndarray \<Rightarrow> real \<Rightarrow> nat list" where
  "nonzero0 a v =
     (let stride = prod_list (tl (shape a))
      in map (\<lambda>i. i div stride) (filter (\<lambda>i. feq (elems a ! i) v) [0..<length (elems a)]))"

text \<open>
  The truth value numpy gives an integer array in \<^verbatim>\<open>if freq_idx:\<close>: false for the empty
  array, the truth value of the element for an array of one element (an index 0 is false),
  and a \<open>ValueError\<close> for more than one element.
\<close>

fun array_truth :: "nat list \<Rightarrow> error + bool" where
  "array_truth [] = Inr False"
| "array_truth [i] = Inr (i \<noteq> 0)"
| "array_truth (i # j # js) = Inl ValueError"

text \<open>
  \<^verbatim>\<open>arr[idx_obj]\<close> with a full slice on every axis but axis \<open>k\<close>, which is fixed at index
  \<open>i\<close>: the sub-array of the elements whose \<open>k\<close>-th index is \<open>i\<close>.
\<close>

definition take_axis :: "nat \<Rightarrow> nat \<Rightarrow> ndarray \<Rightarrow> ndarray" where
  "take_axis k i a =
     (let outer = prod_list (take k (shape a));
          n = shape a ! k;
          inner = prod_list (drop (Suc k) (shape a))
      in \<lparr>shape = take k (shape a) @ drop (Suc k) (shape a),
          elems = concat (map (\<lambda>blk. take inner (drop ((blk * n + i) * inner) (elems a))) [0..<outer])\<rparr>)"

text \<open>\<^verbatim>\<open>list.index\<close>\<close>

fun index_of :: "'a list \<Rightarrow> 'a \<Rightarrow> nat option" where
  "index_of [] x = None"
| "index_of (y # ys) x = (if y = x then Some 0 else map_option Suc (index_of ys x))"

section \<open>Granule files\<close>

text \<open>
  A netCDF dataset as the module reads it: global attributes (text-valued and number-valued
  ones kept apart: the module reads each with one type), the \<^verbatim>\<open>data_model\<close> property every
  open dataset has, and the variables. A variable has its dimension names, its numeric
  attributes and its data, already converted by \<^verbatim>\<open>astype(numpy.float32)\<close>.
\<close>

record nc_variable =
  dimensions :: "string list"
  var_attrs :: "string \<rightharpoonup> real"
  var_array :: ndarray

record nc_dataset =
  text_attrs :: "string \<rightharpoonup> string"
  num_attrs :: "string \<rightharpoonup> real"
  data_model :: string
  variables :: "string \<rightharpoonup> nc_variable"

type_synonym datetime = nat

type_synonym structure_entry = "string \<times> string option \<times> string option \<times> real option"

definition FT_IMG :: string where "FT_IMG = ''MIRS_IMG''"
definition RR_VAR :: string where "RR_VAR = ''rr''"
definition BT_88_VAR :: string where "BT_88_VAR = ''bt_88''"
definition FREQ_VAR :: string where "FREQ_VAR = ''freq''"
definition LAT_VAR :: string where "LAT_VAR = ''latitude''"
definition LON_VAR :: string where "LON_VAR = ''longitude''"

definition GLOBAL_FILL_ATTR_NAME :: string where
  "GLOBAL_FILL_ATTR_NAME = ''missing_value''"

text \<open>Constant -> (var_name, scale_attr_name, fill_attr_name, frequency)\<close>

definition FILE_STRUCTURE :: "string \<rightharpoonup> structure_entry" where
  "FILE_STRUCTURE =
     [RR_VAR \<mapsto> (''RR'', Some ''scale'', None, None),
      BT_88_VAR \<mapsto> (''BT'', Some ''scale'', None, Some (882 / 10)),
      FREQ_VAR \<mapsto> (''Freq'', None, None, None),
      LAT_VAR \<mapsto> (''Latitude'', None, None, None),
      LON_VAR \<mapsto> (''Longitude'', None, None, None)]"

text \<open>
  A \<^verbatim>\<open>MIRSFileReader\<close> object. \<open>file_structure\<close> is the class attribute
  \<^verbatim>\<open>FILE_STRUCTURE\<close>, which the methods read through \<^verbatim>\<open>self\<close>; the constructor below gives
  every reader the table above.
\<close>

record MIRSFileReader =
  filename :: string
  filepath :: string
  nc_obj :: nc_dataset
  satellite :: string
  instrument :: string
  begin_time :: datetime
  end_time :: datetime
  x_res :: real
  y_res :: real
  file_structure :: "string \<rightharpoonup> structure_entry"

text \<open>\<^verbatim>\<open>__getitem__\<close>\<close>

definition getitem :: "MIRSFileReader \<Rightarrow> string \<Rightarrow> error + nc_variable" where
  "getitem self item =
     (case file_structure self item of
        Some (var_name, scale_attr_name, fill_attr_name, freq) \<Rightarrow>
          (case variables (nc_obj self) var_name of
             None \<Rightarrow> Inl (KeyError var_name)
           | Some nc_var \<Rightarrow> Inr nc_var)
      | None \<Rightarrow>
          (case variables (nc_obj self) item of
             None \<Rightarrow> Inl (KeyError item)
           | Some nc_var \<Rightarrow> Inr nc_var))"

text \<open>
  \<^verbatim>\<open>getattr(self.nc_obj.variables[var_name], attr_name)\<close> under \<^verbatim>\<open>if attr_name:\<close>; an
  attribute name that is \<^verbatim>\<open>None\<close> or empty reads nothing.
\<close>

definition var_attr :: "MIRSFileReader \<Rightarrow> string \<Rightarrow> string option \<Rightarrow> error + real option" where
  "var_attr self var_name attr_name =
     (case attr_name of
        None \<Rightarrow> Inr None
      | Some a \<Rightarrow>
          if a = [] then Inr None
          else (case variables (nc_obj self) var_name of
                  None \<Rightarrow> Inl (KeyError var_name)
                | Some nc_var \<Rightarrow>
                    (case var_attrs nc_var a of
                       None \<Rightarrow> Inl (AttributeError a)
                     | Some x \<Rightarrow> Inr (Some x))))"

text \<open>
  \<^verbatim>\<open>get_fill_value\<close>. Its last statement before the return logs \<^verbatim>\<open>float(fill_value)\<close>,
  which raises \<open>TypeError\<close> when neither the variable nor the file declares a fill value.
\<close>

definition get_fill_value :: "MIRSFileReader \<Rightarrow> string \<Rightarrow> error + real option" where
  "get_fill_value self item =
     (case (case file_structure self item of
              None \<Rightarrow> Inr None
            | Some (var_name, scale_attr_name, fill_attr_name, freq) \<Rightarrow>
                var_attr self var_name fill_attr_name) of
        Inl e \<Rightarrow> Inl e
      | Inr fill_value \<Rightarrow>
          (case (case fill_value of
                   None \<Rightarrow> num_attrs (nc_obj self) GLOBAL_FILL_ATTR_NAME
                 | Some x \<Rightarrow> Some x) of
             None \<Rightarrow> Inl TypeError
           | Some x \<Rightarrow> Inr (Some x)))"

definition get_scale_value :: "MIRSFileReader \<Rightarrow> string \<Rightarrow> error + real option" where
  "get_scale_value self item =
     (case file_structure self item of
        None \<Rightarrow> Inr None
      | Some (var_name, scale_attr_name, fill_attr_name, freq) \<Rightarrow>
          var_attr self var_name scale_attr_name)"

definition filter_by_frequency ::
  "MIRSFileReader \<Rightarrow> string \<Rightarrow> ndarray \<Rightarrow> real \<Rightarrow> error + ndarray" where
  "filter_by_frequency self item arr freq =
     (case getitem self FREQ_VAR of
        Inl e \<Rightarrow> Inl e
      | Inr freq_var \<Rightarrow>
          (let freq_idx = nonzero0 (var_array freq_var) freq in
           case array_truth freq_idx of
             Inl e \<Rightarrow> Inl e
           | Inr False \<Rightarrow> Inl ValueError_Frequency
           | Inr True \<Rightarrow>
               (case getitem self item of
                  Inl e \<Rightarrow> Inl e
                | Inr nc_var \<Rightarrow>
                    (case dimensions freq_var of
                       [] \<Rightarrow> Inl IndexError
                     | d # ds \<Rightarrow>
                         (case index_of (dimensions nc_var) d of
                            None \<Rightarrow> Inl ValueError
                          | Some freq_dim_idx \<Rightarrow>
                              if length (shape arr) \<le> freq_dim_idx then Inl IndexError
                              else if shape arr ! freq_dim_idx \<le> hd freq_idx then Inl IndexError
                              else Inr (take_axis freq_dim_idx (hd freq_idx) arr))))))"

text \<open>
  The two conditional statements that end \<^verbatim>\<open>get_swath_data\<close>:
  \<^verbatim>\<open>if file_scale: var_data = var_data.astype(dtype) / file_scale\<close> and
  \<^verbatim>\<open>if file_fill: var_data[var_data == file_fill] = fill\<close>. \<^verbatim>\<open>None\<close> and zero are both
  false.
\<close>

definition apply_scale :: "real option \<Rightarrow> ndarray \<Rightarrow> ndarray" where
  "apply_scale file_scale var_data =
     (case file_scale of
        None \<Rightarrow> var_data
      | Some s \<Rightarrow> if s \<noteq> 0 then array_div var_data s else var_data)"

definition apply_fill :: "real option \<Rightarrow> f32 \<Rightarrow> ndarray \<Rightarrow> ndarray" where
  "apply_fill file_fill fill var_data =
     (case file_fill of
        None \<Rightarrow> var_data
      | Some v \<Rightarrow> if v \<noteq> 0 then array_fill_where_eq var_data v fill else var_data)"

text \<open>
  \<^verbatim>\<open>get_swath_data(item, dtype=numpy.float32, fill=numpy.nan)\<close>; \<open>raw_swath\<close> is the part
  before scale and fill: the variable's data, narrowed to one frequency for a variable the
  table gives a frequency.
\<close>

definition raw_swath :: "MIRSFileReader \<Rightarrow> string \<Rightarrow> error + ndarray" where
  "raw_swath self item =
     (case getitem self item of
        Inl e \<Rightarrow> Inl e
      | Inr nc_var \<Rightarrow>
          (case file_structure self item of
             None \<Rightarrow> Inl (KeyError item)
           | Some (var_name, scale_attr_name, fill_attr_name, freq) \<Rightarrow>
               (case freq of
                  None \<Rightarrow> Inr (var_array nc_var)
                | Some fr \<Rightarrow>
                    if fr \<noteq> 0 then filter_by_frequency self item (var_array nc_var) fr
                    else Inr (var_array nc_var))))"

definition get_swath_data :: "MIRSFileReader \<Rightarrow> string \<Rightarrow> f32 \<Rightarrow> error + ndarray" where
  "get_swath_data self item fill =
     (case raw_swath self item of
        Inl e \<Rightarrow> Inl e
      | Inr var_data \<Rightarrow>
          (case get_fill_value self item of
             Inl e \<Rightarrow> Inl e
           | Inr file_fill \<Rightarrow>
               (case get_scale_value self item of
                  Inl e \<Rightarrow> Inl e
                | Inr file_scale \<Rightarrow>
                    Inr (apply_fill file_fill fill (apply_scale file_scale var_data)))))"

section \<open>Opening a granule\<close>

text \<open>
  What the module takes from the operating system and its libraries, passed explicitly:
  \<^verbatim>\<open>os.path.isdir\<close>, \<^verbatim>\<open>os.path.isfile\<close>, \<^verbatim>\<open>os.listdir\<close>, \<^verbatim>\<open>os.path.realpath\<close>,
  \<^verbatim>\<open>netCDF4.Dataset(path, "r")\<close> (\<open>None\<close> when the file cannot be opened as netCDF, which
  raises), \<^verbatim>\<open>datetime.strptime(s, "%Y-%m-%dT%H:%M:%SZ")\<close> (\<open>None\<close> when the text does not
  match, a \<open>ValueError\<close>), the order in which \<^verbatim>\<open>list(set(products))\<close> lists a set, and
  whether \<^verbatim>\<open>open(filename, "w")\<close> succeeds (it raises \<open>IOError\<close> when it does not).
\<close>

record world =
  isdir :: "string \<Rightarrow> bool"
  isfile :: "string \<Rightarrow> bool"
  listdir :: "string \<Rightarrow> string list"
  realpath :: "string \<Rightarrow> string"
  Dataset :: "string \<Rightarrow> nc_dataset option"
  strptime :: "string \<Rightarrow> datetime option"
  set_order :: "string list \<Rightarrow> string list"
  open_w :: "string \<Rightarrow> bool"

text \<open>\<^verbatim>\<open>os.path.basename\<close>\<close>

definition basename :: "string \<Rightarrow> string" where
  "basename p = rev (takeWhile (\<lambda>c. c \<noteq> CHR ''/'') (rev p))"

text \<open>
  \<^verbatim>\<open>handles_file\<close> on an open dataset. netCDF4 raises \<open>AttributeError\<close> for a global
  attribute the file does not have; the method catches \<open>AssertionError\<close> only.
\<close>

definition handles_file :: "nc_dataset \<Rightarrow> error + bool" where
  "handles_file nc =
     (case text_attrs nc ''project'' of
        None \<Rightarrow> Inl (AttributeError ''project'')
      | Some project \<Rightarrow>
          if project \<noteq> ''Microwave Integrated Retrieval System'' then Inr False
          else (case text_attrs nc ''title'' of
                  None \<Rightarrow> Inl (AttributeError ''title'')
                | Some title \<Rightarrow>
                    if title \<noteq> ''MIRS IMG'' then Inr False
                    else Inr (data_model nc = ''NETCDF4'')))"

text \<open>Reading a global attribute: \<^verbatim>\<open>self.nc_obj.<name>\<close>.\<close>

definition text_attr :: "nc_dataset \<Rightarrow> string \<Rightarrow> error + string" where
  "text_attr nc name = (case text_attrs nc name of None \<Rightarrow> Inl (AttributeError name) | Some v \<Rightarrow> Inr v)"

definition num_attr :: "nc_dataset \<Rightarrow> string \<Rightarrow> error + real" where
  "num_attr nc name = (case num_attrs nc name of None \<Rightarrow> Inl (AttributeError name) | Some v \<Rightarrow> Inr v)"

definition time_attr :: "world \<Rightarrow> nc_dataset \<Rightarrow> string \<Rightarrow> error + datetime" where
  "time_attr w nc name =
     (case text_attr nc name of
        Inl e \<Rightarrow> Inl e
      | Inr s \<Rightarrow> (case strptime w s of None \<Rightarrow> Inl ValueError | Some t \<Rightarrow> Inr t))"

text \<open>\<^verbatim>\<open>MIRSFileReader.__init__\<close>\<close>

definition MIRSFileReader_init :: "world \<Rightarrow> string \<Rightarrow> error + MIRSFileReader" where
  "MIRSFileReader_init w fp =
     (case Dataset w (realpath w fp) of
        None \<Rightarrow> Inl (IOError (realpath w fp))
      | Some nc \<Rightarrow>
     (case handles_file nc of
        Inl e \<Rightarrow> Inl e
      | Inr ok \<Rightarrow>
          if \<not> ok then Inl (ValueError_UnknownFormat (basename fp))
          else
     (case text_attr nc ''satellite_name'' of Inl e \<Rightarrow> Inl e | Inr sat \<Rightarrow>
     (case text_attr nc ''instrument_name'' of Inl e \<Rightarrow> Inl e | Inr ins \<Rightarrow>
     (case time_attr w nc ''time_coverage_start'' of Inl e \<Rightarrow> Inl e | Inr bt \<Rightarrow>
     (case time_attr w nc ''time_coverage_end'' of Inl e \<Rightarrow> Inl e | Inr et \<Rightarrow>
     (case num_attr nc ''geospatial_lon_resolution'' of Inl e \<Rightarrow> Inl e | Inr xr \<Rightarrow>
     (case num_attr nc ''geospatial_lat_resolution'' of Inl e \<Rightarrow> Inl e | Inr yr \<Rightarrow>
        Inr \<lparr>filename = basename fp, filepath = realpath w fp, nc_obj = nc,
             satellite = sat, instrument = ins, begin_time = bt, end_time = et,
             x_res = xr, y_res = yr, file_structure = FILE_STRUCTURE\<rparr>))))))))"

section \<open>Ordering readers\<close>

text \<open>
  The value a reader is compared with: another reader, or any other object, given by the
  attributes it has. \<^verbatim>\<open>_compare\<close> reads \<^verbatim>\<open>other.start_time\<close>. A reader's attributes are
  the ten fields of the record above: it has \<^verbatim>\<open>begin_time\<close> and no \<^verbatim>\<open>start_time\<close>, so the
  read raises \<open>AttributeError\<close>, which \<^verbatim>\<open>_compare\<close> catches to \<^verbatim>\<open>raise NotImplemented\<close>,
  a \<open>TypeError\<close>.
\<close>

datatype pyobj = PyReader MIRSFileReader | PyObject "string \<rightharpoonup> datetime"

fun getattr_start_time :: "pyobj \<Rightarrow> datetime option" where
  "getattr_start_time (PyReader r) = None"
| "getattr_start_time (PyObject attrs) = attrs ''start_time''"

definition MIRSFileReader_compare ::
  "MIRSFileReader \<Rightarrow> pyobj \<Rightarrow> (datetime \<Rightarrow> datetime \<Rightarrow> bool) \<Rightarrow> error + bool" where
  "MIRSFileReader_compare self other method =
     (case getattr_start_time other of
        None \<Rightarrow> Inl TypeError
      | Some t \<Rightarrow> Inr (method (begin_time self) t))"

definition MIRSFileReader_lt :: "MIRSFileReader \<Rightarrow> pyobj \<Rightarrow> error + bool" where
  "MIRSFileReader_lt self other = MIRSFileReader_compare self other (\<lambda>s o'. s < o')"

definition MIRSFileReader_le :: "MIRSFileReader \<Rightarrow> pyobj \<Rightarrow> error + bool" where
  "MIRSFileReader_le self other = MIRSFileReader_compare self other (\<lambda>s o'. s \<le> o')"

definition MIRSFileReader_eq :: "MIRSFileReader \<Rightarrow> pyobj \<Rightarrow> error + bool" where
  "MIRSFileReader_eq self other = MIRSFileReader_compare self other (\<lambda>s o'. s = o')"

text \<open>
  \<^verbatim>\<open>sorted\<close>: a stable comparison sort that asks only \<^verbatim>\<open><\<close> and compares at least once
  when the list has two elements or more; an exception of a comparison ends it. It is
  modelled as insertion from the left, each element going before the first one it is less
  than.
\<close>

fun insort_py :: "('a \<Rightarrow> 'a \<Rightarrow> error + bool) \<Rightarrow> 'a \<Rightarrow> 'a list \<Rightarrow> error + 'a list" where
  "insort_py lt x [] = Inr [x]"
| "insort_py lt x (y # ys) =
     (case lt x y of
        Inl e \<Rightarrow> Inl e
      | Inr True \<Rightarrow> Inr (x # y # ys)
      | Inr False \<Rightarrow> (case insort_py lt x ys of Inl e \<Rightarrow> Inl e | Inr zs \<Rightarrow> Inr (y # zs)))"

fun sorted_from :: "('a \<Rightarrow> 'a \<Rightarrow> error + bool) \<Rightarrow> 'a list \<Rightarrow> 'a list \<Rightarrow> error + 'a list" where
  "sorted_from lt acc [] = Inr acc"
| "sorted_from lt acc (x # xs) =
     (case insort_py lt x acc of Inl e \<Rightarrow> Inl e | Inr acc' \<Rightarrow> sorted_from lt acc' xs)"

definition sorted_py :: "('a \<Rightarrow> 'a \<Rightarrow> error + bool) \<Rightarrow> 'a list \<Rightarrow> error + 'a list" where
  "sorted_py lt xs = sorted_from lt [] xs"

section \<open>The ensemble of granules\<close>

record MIRSMultiReader =
  file_readers :: "MIRSFileReader list"
  files_finalized :: bool

text \<open>
  The methods that change the ensemble return the outcome and the ensemble as they leave
  it.
\<close>

definition add_file :: "world \<Rightarrow> MIRSMultiReader \<Rightarrow> string \<Rightarrow> (error + unit) \<times> MIRSMultiReader" where
  "add_file w self fn =
     (if files_finalized self then (Inl RuntimeError_Finalized, self)
      else (case MIRSFileReader_init w fn of
              Inl e \<Rightarrow> (Inl e, self)
            | Inr r \<Rightarrow> (Inr (), self\<lparr>file_readers := file_readers self @ [r]\<rparr>)))"

fun add_files :: "world \<Rightarrow> MIRSMultiReader \<Rightarrow> string list \<Rightarrow> (error + unit) \<times> MIRSMultiReader" where
  "add_files w self [] = (Inr (), self)"
| "add_files w self (fn # fns) =
     (case add_file w self fn of
        (Inl e, self') \<Rightarrow> (Inl e, self')
      | (Inr u, self') \<Rightarrow> add_files w self' fns)"

definition finalize_files :: "MIRSMultiReader \<Rightarrow> (error + unit) \<times> MIRSMultiReader" where
  "finalize_files self =
     (case sorted_py (\<lambda>a b. MIRSFileReader_lt a (PyReader b)) (file_readers self) of
        Inl e \<Rightarrow> (Inl e, self)
      | Inr rs \<Rightarrow> (Inr (), self\<lparr>file_readers := rs, files_finalized := True\<rparr>))"

text \<open>\<^verbatim>\<open>MIRSMultiReader.__init__(filenames)\<close>; no file names, or none given, adds nothing.\<close>

definition MIRSMultiReader_init :: "world \<Rightarrow> string list \<Rightarrow> error + MIRSMultiReader" where
  "MIRSMultiReader_init w filenames =
     (let self = \<lparr>file_readers = [], files_finalized = False\<rparr> in
      if filenames = [] then Inr self
      else (case add_files w self filenames of
              (Inl e, self') \<Rightarrow> Inl e
            | (Inr u, self') \<Rightarrow>
                (case finalize_files self' of
                   (Inl e, self'') \<Rightarrow> Inl e
                 | (Inr u', self'') \<Rightarrow> Inr self'')))"

text \<open>The properties read from the first and the last reader.\<close>

definition first_reader :: "MIRSMultiReader \<Rightarrow> error + MIRSFileReader" where
  "first_reader self = (case file_readers self of [] \<Rightarrow> Inl IndexError | r # rs \<Rightarrow> Inr r)"

definition last_reader :: "MIRSMultiReader \<Rightarrow> error + MIRSFileReader" where
  "last_reader self = (if file_readers self = [] then Inl IndexError else Inr (last (file_readers self)))"

definition multi_end_time :: "MIRSMultiReader \<Rightarrow> error + datetime" where
  "multi_end_time self = (case last_reader self of Inl e \<Rightarrow> Inl e | Inr r \<Rightarrow> Inr (end_time r))"

definition filepaths :: "MIRSMultiReader \<Rightarrow> string list" where
  "filepaths self = map filepath (file_readers self)"

text \<open>
  Modelled from the spec: \<^verbatim>\<open>FileAppender\<close> of \<^verbatim>\<open>polar2grid.core.fbf\<close> is not among the
  sources. The specification has the aggregation append each decoded array's rows to one
  contiguous output stream, in reader order, and return the accumulated row and column
  extent; it states twice that the reference implementation does not compare the column
  extents of the arrays it appends. So an append adds the array's elements to the stream
  and its rows to the row count, and the remaining extents are those of the array appended.
\<close>

record FileAppender =
  stream :: "f32 list"
  appender_shape :: "nat list"

definition FileAppender_init :: FileAppender where
  "FileAppender_init = \<lparr>stream = [], appender_shape = [0, 0]\<rparr>"

definition FileAppender_append :: "FileAppender \<Rightarrow> ndarray \<Rightarrow> FileAppender" where
  "FileAppender_append fa a =
     \<lparr>stream = stream fa @ elems a,
      appender_shape = (hd (appender_shape fa) + hd (shape a)) # tl (shape a)\<rparr>"

text \<open>
  \<^verbatim>\<open>write_var_to_flat_binary\<close>: the loop over the readers, then the method, which opens
  the file first. The result is the outcome (the appender's shape) and the file as the method
  leaves it, also when a reader fails part of the way; no file when it cannot be opened.
\<close>

fun append_readers ::
  "FileAppender \<Rightarrow> MIRSFileReader list \<Rightarrow> string \<Rightarrow> (error + unit) \<times> FileAppender" where
  "append_readers fa [] item = (Inr (), fa)"
| "append_readers fa (file_reader # rs) item =
     (case get_swath_data file_reader item NaN of
        Inl e \<Rightarrow> (Inl e, fa)
      | Inr single_array \<Rightarrow> append_readers (FileAppender_append fa single_array) rs item)"

definition write_var_to_flat_binary ::
  "world \<Rightarrow> MIRSMultiReader \<Rightarrow> string \<Rightarrow> string
     \<Rightarrow> (error + nat list) \<times> (string \<times> f32 list) list" where
  "write_var_to_flat_binary w self item fname =
     (if \<not> open_w w fname then (Inl (IOError fname), [])
      else (case append_readers FileAppender_init (file_readers self) item of
              (Inl e, fa) \<Rightarrow> (Inl e, [(fname, stream fa)])
            | (Inr u, fa) \<Rightarrow> (Inr (appender_shape fa), [(fname, stream fa)])))"

section \<open>Products\<close>

record ProductDefinition =
  name :: string
  data_kind :: string
  dependencies :: "string list"
  description :: string
  units :: string

record MIRSProductDefiniton = ProductDefinition +
  file_type :: string
  file_key :: string
  is_geoproduct :: bool

text \<open>
  \<^verbatim>\<open>ProductList\<close> is a dictionary from a product's name to its definition; it is kept as
  the list of its items, and \<^verbatim>\<open>add_product\<close> stores under the name.
\<close>

type_synonym ProductList = "(string \<times> MIRSProductDefiniton) list"

definition add_product :: "ProductList \<Rightarrow> MIRSProductDefiniton \<Rightarrow> ProductList" where
  "add_product ps pd = AList.update (name pd) pd ps"

definition PRODUCT_RAIN_RATE :: string where "PRODUCT_RAIN_RATE = ''rain_rate''"
definition PRODUCT_BT_88 :: string where "PRODUCT_BT_88 = ''btemp_88''"
definition PRODUCT_LATITUDE :: string where "PRODUCT_LATITUDE = ''latitude''"
definition PRODUCT_LONGITUDE :: string where "PRODUCT_LONGITUDE = ''longitude''"

definition PRODUCTS :: ProductList where
  "PRODUCTS =
     add_product (add_product (add_product (add_product []
       \<lparr>name = PRODUCT_RAIN_RATE, data_kind = ''rain_rate'', dependencies = [],
        description = ''Rain Rate'', units = ''mm/hr'',
        file_type = FT_IMG, file_key = RR_VAR, is_geoproduct = False\<rparr>)
       \<lparr>name = PRODUCT_BT_88, data_kind = ''btemp'', dependencies = [],
        description = ''Channel Brightness Temperature at 88.2GHz'', units = ''K'',
        file_type = FT_IMG, file_key = BT_88_VAR, is_geoproduct = False\<rparr>)
       \<lparr>name = PRODUCT_LATITUDE, data_kind = ''latitude'', dependencies = [],
        description = ''Latitude'', units = ''degrees'',
        file_type = FT_IMG, file_key = LAT_VAR, is_geoproduct = True\<rparr>)
       \<lparr>name = PRODUCT_LONGITUDE, data_kind = ''longitude'', dependencies = [],
        description = ''Longitude'', units = ''degrees'',
        file_type = FT_IMG, file_key = LON_VAR, is_geoproduct = True\<rparr>"

section \<open>Discovery\<close>

text \<open>
  \<^verbatim>\<open>FILE_CLASSES\<close> maps the one file kind to \<^verbatim>\<open>MIRSMultiReader\<close>, whose
  \<^verbatim>\<open>handles_file\<close> is the single-file reader's; the list holds its keys.
\<close>

definition FILE_CLASSES :: "string list" where
  "FILE_CLASSES = [FT_IMG]"

definition endswith :: "string \<Rightarrow> string \<Rightarrow> bool" where
  "endswith s suf = (length suf \<le> length s \<and> drop (length s - length suf) s = suf)"

text \<open>\<^verbatim>\<open>os.path.join\<close> of two parts\<close>

definition path_join :: "string \<Rightarrow> string \<Rightarrow> string" where
  "path_join a b =
     (if b \<noteq> [] \<and> hd b = CHR ''/'' then b
      else if a = [] \<or> last a = CHR ''/'' then a @ b
      else a @ ''/'' @ b)"

fun first_handler :: "nc_dataset \<Rightarrow> string list \<Rightarrow> error + string option" where
  "first_handler nc [] = Inr None"
| "first_handler nc (file_kind # kinds) =
     (case handles_file nc of
        Inl e \<Rightarrow> Inl e
      | Inr True \<Rightarrow> Inr (Some file_kind)
      | Inr False \<Rightarrow> first_handler nc kinds)"

definition get_file_type :: "world \<Rightarrow> string \<Rightarrow> error + string option" where
  "get_file_type w fp =
     (if \<not> endswith fp ''.nc'' then Inr None
      else (case Dataset w fp of
              None \<Rightarrow> Inl (IOError fp)
            | Some nc \<Rightarrow> first_handler nc FILE_CLASSES))"

text \<open>
  \<^verbatim>\<open>find_all_files\<close> is a generator that the constructor consumes to its end: the list
  of what it yields, or the exception that ends it.
\<close>

definition yield_file :: "world \<Rightarrow> string \<Rightarrow> error + (string \<times> string) list" where
  "yield_file w fp =
     (case get_file_type w fp of
        Inl e \<Rightarrow> Inl e
      | Inr None \<Rightarrow> Inr []
      | Inr (Some ft) \<Rightarrow> Inr [(ft, realpath w fp)])"

fun yield_children :: "world \<Rightarrow> string \<Rightarrow> string list \<Rightarrow> error + (string \<times> string) list" where
  "yield_children w p [] = Inr []"
| "yield_children w p (fn # fns) =
     (case yield_file w (path_join p fn) of
        Inl e \<Rightarrow> Inl e
      | Inr here \<Rightarrow>
          (case yield_children w p fns of Inl e \<Rightarrow> Inl e | Inr rest \<Rightarrow> Inr (here @ rest)))"

fun find_all_files :: "world \<Rightarrow> string list \<Rightarrow> error + (string \<times> string) list" where
  "find_all_files w [] = Inr []"
| "find_all_files w (p # ps) =
     (case (if isdir w p then yield_children w p (listdir w p)
            else if isfile w p then yield_file w p
            else Inr []) of
        Inl e \<Rightarrow> Inl e
      | Inr here \<Rightarrow>
          (case find_all_files w ps of Inl e \<Rightarrow> Inl e | Inr rest \<Rightarrow> Inr (here @ rest)))"

record Frontend =
  recognized_files :: "(string \<times> string list) list"

text \<open>
  \<^verbatim>\<open>if file_kind not in self.recognized_files: self.recognized_files[file_kind] = []\<close>,
  then the append.
\<close>

definition recognize :: "(string \<times> string list) list \<Rightarrow> string \<times> string \<Rightarrow> (string \<times> string list) list" where
  "recognize rf kp =
     AList.update (fst kp) ((case map_of rf (fst kp) of None \<Rightarrow> [] | Some fps \<Rightarrow> fps) @ [snd kp]) rf"

text \<open>\<^verbatim>\<open>Frontend.__init__(search_paths)\<close>; no search paths, or none given, search \<^verbatim>\<open>'.'\<close>.\<close>

definition Frontend_init :: "world \<Rightarrow> string list \<Rightarrow> error + Frontend" where
  "Frontend_init w search_paths =
     (case find_all_files w (if search_paths = [] then [''.''] else search_paths) of
        Inl e \<Rightarrow> Inl e
      | Inr found \<Rightarrow>
          if foldl recognize [] found = [] then Inl RuntimeError_NoUsableFiles
          else Inr \<lparr>recognized_files = foldl recognize [] found\<rparr>)"

definition available_product_names :: "ProductList \<Rightarrow> string list" where
  "available_product_names products =
     map fst (filter (\<lambda>kv. dependencies (snd kv) = [] \<and> \<not> is_geoproduct (snd kv)) products)"

section \<open>Scene creation\<close>

text \<open>
  \<^verbatim>\<open>meta.SwathProduct\<close> and \<^verbatim>\<open>meta.SwathScene\<close> are containers of the keyword arguments
  and of the products stored in them. A product's \<^verbatim>\<open>longitude\<close> and \<^verbatim>\<open>latitude\<close> are other
  products. \<open>float32_tag\<close> stands for what \<^verbatim>\<open>numpy_to_dtype(numpy.float32)\<close> returns.
\<close>

datatype dtype_tag = float32_tag

record swath_fields =
  product_name :: string
  sp_description :: string
  sp_units :: string
  sp_satellite :: string
  sp_instrument :: string
  sp_begin_time :: datetime
  sp_end_time :: datetime
  fill_value :: f32
  swath_rows :: nat
  swath_cols :: nat
  data_type :: dtype_tag
  swath_data :: string
  source_filenames :: "string list"
  sp_data_kind :: string
  rows_per_scan :: nat
  sp_x_res :: real
  sp_y_res :: real

datatype SwathProduct =
  SwathProduct (sp_fields: swath_fields) (longitude: "SwathProduct option") (latitude: "SwathProduct option")

text \<open>
  \<^verbatim>\<open>_create_raw_swath_object\<close>: the outcome, and the files it has written (none when it
  fails before writing).
\<close>

definition create_raw_swath_object ::
  "world \<Rightarrow> ProductList \<Rightarrow> string \<Rightarrow> (string \<rightharpoonup> MIRSMultiReader) \<Rightarrow> (string \<rightharpoonup> SwathProduct)
     \<Rightarrow> (error + SwathProduct) \<times> (string \<times> f32 list) list" where
  "create_raw_swath_object w products pname readers created =
     (case map_of products pname of
        None \<Rightarrow> (Inl (KeyError pname), [])
      | Some product_def \<Rightarrow>
     (case readers (file_type product_def) of
        None \<Rightarrow> (Inl (KeyError (file_type product_def)), [])
      | Some file_reader \<Rightarrow>
     (case write_var_to_flat_binary w file_reader (file_key product_def) (pname @ ''.dat'') of
        (Inl e, fs) \<Rightarrow> (Inl e, fs)
      | (Inr shp, fs) \<Rightarrow>
     (case first_reader file_reader of
        Inl e \<Rightarrow> (Inl e, fs)
      | Inr r0 \<Rightarrow>
     (case multi_end_time file_reader of
        Inl e \<Rightarrow> (Inl e, fs)
      | Inr et \<Rightarrow>
          if length shp < 2 then (Inl IndexError, fs)
          else
            (Inr (SwathProduct
               \<lparr>product_name = pname, sp_description = description product_def,
                sp_units = units product_def, sp_satellite = satellite r0,
                sp_instrument = instrument r0, sp_begin_time = begin_time r0, sp_end_time = et,
                fill_value = NaN, swath_rows = shp ! 0, swath_cols = shp ! 1,
                data_type = float32_tag, swath_data = pname @ ''.dat'',
                source_filenames = filepaths file_reader, sp_data_kind = data_kind product_def,
                rows_per_scan = 0, sp_x_res = x_res r0, sp_y_res = y_res r0\<rparr>
               (if pname \<in> set [PRODUCT_LATITUDE, PRODUCT_LONGITUDE] then None
                else created PRODUCT_LONGITUDE)
               (if pname \<in> set [PRODUCT_LATITUDE, PRODUCT_LONGITUDE] then None
                else created PRODUCT_LATITUDE)),
             fs))))))"

text \<open>The loop that checks the dependencies and collects \<^verbatim>\<open>raw_products\<close>.\<close>

fun raw_products_of :: "ProductList \<Rightarrow> string list \<Rightarrow> error + string list" where
  "raw_products_of products [] = Inr []"
| "raw_products_of products (pname # rest) =
     (case map_of products pname of
        None \<Rightarrow> Inl (KeyError pname)
      | Some product_def \<Rightarrow>
          if dependencies product_def \<noteq> [] then Inl NotImplementedError_Dependencies
          else (case raw_products_of products rest of
                  Inl e \<Rightarrow> Inl e
                | Inr raw \<Rightarrow> Inr (pname # raw)))"

text \<open>The loop that loads the files of each recognized kind.\<close>

fun load_files ::
  "world \<Rightarrow> (string \<times> string list) list \<Rightarrow> (string \<rightharpoonup> MIRSMultiReader)
     \<Rightarrow> error + (string \<rightharpoonup> MIRSMultiReader)" where
  "load_files w [] readers = Inr readers"
| "load_files w ((ft, fps) # rest) readers =
     (if ft \<notin> set FILE_CLASSES then Inl (KeyError ft)
      else (case MIRSMultiReader_init w fps of
              Inl e \<Rightarrow> Inl e
            | Inr file_reader \<Rightarrow>
                load_files w rest
                  (if length (file_readers file_reader) \<noteq> 0 then readers(FT_IMG \<mapsto> file_reader)
                   else readers)))"

text \<open>
  The state of the two loops that create the products: \<^verbatim>\<open>products_created\<close>, the scene
  (its items in the order they were first stored) and the files written so far, in order.
\<close>

record scene_state =
  products_created :: "string \<rightharpoonup> SwathProduct"
  scene :: "(string \<times> SwathProduct) list"
  written :: "(string \<times> f32 list) list"

fun load_geo_products ::
  "world \<Rightarrow> ProductList \<Rightarrow> (string \<rightharpoonup> MIRSMultiReader) \<Rightarrow> string list \<Rightarrow> string list \<Rightarrow> scene_state
     \<Rightarrow> (error + unit) \<times> scene_state" where
  "load_geo_products w products readers raw_products [] st = (Inr (), st)"
| "load_geo_products w products readers raw_products (geo_product # rest) st =
     (case create_raw_swath_object w products geo_product readers (products_created st) of
        (Inl e, fs) \<Rightarrow> (Inl e, st\<lparr>written := written st @ fs\<rparr>)
      | (Inr one_swath, fs) \<Rightarrow>
          load_geo_products w products readers raw_products rest
            \<lparr>products_created = (products_created st)(geo_product \<mapsto> one_swath),
             scene = (if geo_product \<in> set raw_products
                      then AList.update geo_product one_swath (scene st) else scene st),
             written = written st @ fs\<rparr>)"

fun load_raw_products ::
  "world \<Rightarrow> ProductList \<Rightarrow> (string \<rightharpoonup> MIRSMultiReader) \<Rightarrow> string list \<Rightarrow> scene_state
     \<Rightarrow> (error + unit) \<times> scene_state" where
  "load_raw_products w products readers [] st = (Inr (), st)"
| "load_raw_products w products readers (raw_product # rest) st =
     (if raw_product \<in> dom (products_created st) then load_raw_products w products readers rest st
      else (case create_raw_swath_object w products raw_product readers (products_created st) of
              (Inl e, fs) \<Rightarrow> (Inl e, st\<lparr>written := written st @ fs\<rparr>)
            | (Inr one_swath, fs) \<Rightarrow>
                load_raw_products w products readers rest
                  \<lparr>products_created = (products_created st)(raw_product \<mapsto> one_swath),
                   scene = AList.update raw_product one_swath (scene st),
                   written = written st @ fs\<rparr>))"

text \<open>
  \<^verbatim>\<open>create_scene(products=None, nprocs=1)\<close>, with the module's \<^verbatim>\<open>PRODUCTS\<close> passed
  explicitly: the outcome, and the files written, in order.
\<close>

definition create_scene ::
  "ProductList \<Rightarrow> world \<Rightarrow> Frontend \<Rightarrow> string list option \<Rightarrow> int
     \<Rightarrow> (error + (string \<times> SwathProduct) list) \<times> (string \<times> f32 list) list" where
  "create_scene products w self requested nprocs =
     (if nprocs \<noteq> 1 then (Inl NotImplementedError_Nprocs, [])
      else
     (case raw_products_of products
             (set_order w (case requested of
                             None \<Rightarrow> available_product_names products
                           | Some ps \<Rightarrow> ps)) of
        Inl e \<Rightarrow> (Inl e, [])
      | Inr raw_products \<Rightarrow>
     (case load_files w (recognized_files self) Map.empty of
        Inl e \<Rightarrow> (Inl e, [])
      | Inr readers \<Rightarrow>
     (case load_geo_products w products readers raw_products [PRODUCT_LATITUDE, PRODUCT_LONGITUDE]
             \<lparr>products_created = Map.empty, scene = [], written = []\<rparr> of
        (Inl e, st) \<Rightarrow> (Inl e, written st)
      | (Inr u, st) \<Rightarrow>
     (case load_raw_products w products readers raw_products st of
        (Inl e, st') \<Rightarrow> (Inl e, written st')
      | (Inr u', st') \<Rightarrow> (Inr (scene st'), written st'))))))"

section \<open>Example granules\<close>

text \<open>
  A small granule file that passes \<open>handles_file\<close>, a reader of it, and a file system with
  one directory \<^verbatim>\<open>/data\<close>; the concrete inputs of the examples below. The granule is given
  its rain-rate array, the rain rate's \<^verbatim>\<open>scale\<close> attribute, the file's
  \<^verbatim>\<open>missing_value\<close> (if it has one), its frequency axis and its brightness temperatures.
\<close>

definition example_dataset :: "ndarray \<Rightarrow> real \<Rightarrow> real option \<Rightarrow> real list \<Rightarrow> ndarray \<Rightarrow> nc_dataset" where
  "example_dataset rr sc mv freqs bt =
     \<lparr>text_attrs =
        [''project'' \<mapsto> ''Microwave Integrated Retrieval System'',
         ''title'' \<mapsto> ''MIRS IMG'',
         ''satellite_name'' \<mapsto> ''npp'',
         ''instrument_name'' \<mapsto> ''atms'',
         ''time_coverage_start'' \<mapsto> ''2014-09-01T00:00:00Z'',
         ''time_coverage_end'' \<mapsto> ''2014-09-01T00:05:00Z''],
      num_attrs =
        (\<lambda>k. if k = ''missing_value'' then mv
             else [''geospatial_lon_resolution'' \<mapsto> 1 / 2, ''geospatial_lat_resolution'' \<mapsto> 1 / 2] k),
      data_model = ''NETCDF4'',
      variables =
        [''RR'' \<mapsto> \<lparr>dimensions = [''Scanline'', ''Field_of_view''],
                     var_attrs = [''scale'' \<mapsto> sc], var_array = rr\<rparr>,
         ''BT'' \<mapsto> \<lparr>dimensions = [''Scanline'', ''Field_of_view'', ''Channel''],
                     var_attrs = [''scale'' \<mapsto> 100], var_array = bt\<rparr>,
         ''Freq'' \<mapsto> \<lparr>dimensions = [''Channel''], var_attrs = Map.empty,
                       var_array = \<lparr>shape = [length freqs], elems = map F freqs\<rparr>\<rparr>,
         ''Latitude'' \<mapsto> \<lparr>dimensions = [''Scanline'', ''Field_of_view''],
                           var_attrs = Map.empty, var_array = \<lparr>shape = shape rr, elems = map (\<lambda>x. F 45) (elems rr)\<rparr>\<rparr>,
         ''Longitude'' \<mapsto> \<lparr>dimensions = [''Scanline'', ''Field_of_view''],
                            var_attrs = Map.empty, var_array = \<lparr>shape = shape rr, elems = map (\<lambda>x. F 90) (elems rr)\<rparr>\<rparr>]\<rparr>"

definition example_reader :: "nc_dataset \<Rightarrow> datetime \<Rightarrow> MIRSFileReader" where
  "example_reader nc t =
     \<lparr>filename = ''granule.nc'', filepath = ''/data/granule.nc'', nc_obj = nc,
      satellite = ''npp'', instrument = ''atms'', begin_time = t, end_time = t + 300,
      x_res = 1 / 2, y_res = 1 / 2, file_structure = FILE_STRUCTURE\<rparr>"

definition bt2 :: ndarray where
  "bt2 = \<lparr>shape = [1, 1, 2], elems = [F 27000, F 28000]\<rparr>"

definition example_world :: "string list \<Rightarrow> (string \<rightharpoonup> nc_dataset) \<Rightarrow> world" where
  "example_world names files =
     \<lparr>isdir = (\<lambda>p. p = ''/data''), isfile = (\<lambda>p. files p \<noteq> None),
      listdir = (\<lambda>p. if p = ''/data'' then names else []), realpath = (\<lambda>p. p),
      Dataset = files,
      strptime = [''2014-09-01T00:00:00Z'' \<mapsto> 0, ''2014-09-01T00:05:00Z'' \<mapsto> 300],
      set_order = remdups, open_w = (\<lambda>p. p \<noteq> [])\<rparr>"

definition example_granule :: "nat list \<Rightarrow> real list \<Rightarrow> nc_dataset" where
  "example_granule shp rr =
     example_dataset \<lparr>shape = shp, elems = map F rr\<rparr> 2 (Some (- 999)) [238 / 10, 882 / 10] bt2"

text \<open>
  A netCDF file of another project, which has no \<^verbatim>\<open>project\<close> attribute, and a product
  that depends on another, as \<^verbatim>\<open>PRODUCTS.add_product\<close> can register it.
\<close>

definition foreign_dataset :: nc_dataset where
  "foreign_dataset =
     \<lparr>text_attrs = [''title'' \<mapsto> ''Sea surface temperature''], num_attrs = Map.empty,
      data_model = ''NETCDF4'', variables = Map.empty\<rparr>"

definition derived_product :: MIRSProductDefiniton where
  "derived_product =
     \<lparr>name = ''rain_rate_daily'', data_kind = ''rain_rate'', dependencies = [''rain_rate''],
      description = ''Accumulated Rain Rate'', units = ''mm'',
      file_type = FT_IMG, file_key = RR_VAR, is_geoproduct = False\<rparr>"


section \<open>Decoding a variable\<close>

lemmas names =
  RR_VAR_def BT_88_VAR_def FREQ_VAR_def LAT_VAR_def LON_VAR_def FILE_STRUCTURE_def
  GLOBAL_FILL_ATTR_NAME_def

lemmas decode =
  get_swath_data_def raw_swath_def getitem_def get_fill_value_def get_scale_value_def
  var_attr_def apply_fill_def apply_scale_def array_div_def array_fill_where_eq_def
  filter_by_frequency_def nonzero0_def take_axis_def

lemmas examples =
  example_reader_def example_dataset_def example_granule_def example_world_def bt2_def

text \<open>
  The part of C9 that holds. When the scale factor read for a variable is 0 (or none is
  read), \<open>get_swath_data\<close> divides nothing: its result is the raw data with the fill
  substitution alone. When the fill value read (the variable's own or the file's) is 0, it
  substitutes nothing: its result is the raw data with the scale division alone. In the two
  statements that do the work, a value of 0 has the effect of \<^verbatim>\<open>None\<close>: the data are left
  as they are.
\<close>

lemma zero_scale_and_zero_fill_are_skipped:
  assumes "raw_swath self item = Inr d"
    and "get_fill_value self item = Inr fl"
    and "get_scale_value self item = Inr sc"
  shows "(sc = Some 0 \<or> sc = None \<longrightarrow>
            get_swath_data self item fill = Inr (apply_fill fl fill d)) \<and>
         (fl = Some 0 \<longrightarrow> get_swath_data self item fill = Inr (apply_scale sc d)) \<and>
         apply_scale (Some 0) d = d \<and> apply_scale None d = d \<and>
         apply_fill (Some 0) fill d = d \<and> apply_fill None fill d = d"
  using assms
  by (auto simp: get_swath_data_def apply_scale_def apply_fill_def split: option.splits)

text \<open>
  C9. The code at the failing input: a granule that declares no fill value, neither for the
  rain rate nor for the file. The same granule with a \<^verbatim>\<open>missing_value\<close> of 0 is decoded
  with nothing substituted; without one, \<open>get_fill_value\<close> reads \<^verbatim>\<open>None\<close> and raises
  \<open>TypeError\<close> in its call of \<^verbatim>\<open>float\<close>, and \<open>get_swath_data\<close> decodes nothing: a fill value
  of 0 is not treated as one that is not declared.
\<close>

theorem get_swath_data_undeclared_fill:
  "get_fill_value (example_reader (example_dataset \<lparr>shape = [1, 2], elems = [F 0, F 4]\<rparr> 2 (Some 0) [238 / 10, 882 / 10] bt2) 0) RR_VAR
     = Inr (Some 0) \<and>
   get_swath_data (example_reader (example_dataset \<lparr>shape = [1, 2], elems = [F 0, F 4]\<rparr> 2 (Some 0) [238 / 10, 882 / 10] bt2) 0) RR_VAR NaN
     = Inr \<lparr>shape = [1, 2], elems = [F 0, F 2]\<rparr> \<and>
   num_attrs (example_dataset \<lparr>shape = [1, 2], elems = [F 0, F 4]\<rparr> 2 None [238 / 10, 882 / 10] bt2) GLOBAL_FILL_ATTR_NAME
     = None \<and>
   get_fill_value (example_reader (example_dataset \<lparr>shape = [1, 2], elems = [F 0, F 4]\<rparr> 2 None [238 / 10, 882 / 10] bt2) 0) RR_VAR
     = Inl TypeError \<and>
   get_swath_data (example_reader (example_dataset \<lparr>shape = [1, 2], elems = [F 0, F 4]\<rparr> 2 None [238 / 10, 882 / 10] bt2) 0) RR_VAR NaN
     = Inl TypeError"
  by (simp add: decode names examples)

text \<open>
  C3, as the code has it. For a variable whose scale factor \<open>s\<close> and fill value \<open>v\<close> are both
  declared and not 0, \<open>get_swath_data\<close> returns the raw array divided elementwise by \<open>s\<close>, with
  every element that equals \<open>v\<close> after the division replaced by the output fill value: the
  division comes first. When no element equals \<open>v\<close> after the division, the result is the raw
  array divided elementwise by \<open>s\<close>.
\<close>

theorem get_swath_data_scale_then_fill:
  assumes "raw_swath self item = Inr d"
    and "get_scale_value self item = Inr (Some s)" and "s \<noteq> 0"
    and "get_fill_value self item = Inr (Some v)" and "v \<noteq> 0"
  shows "get_swath_data self item fill = Inr (array_fill_where_eq (array_div d s) v fill) \<and>
         ((\<forall>x \<in> set (elems d). \<not> feq (fdiv x s) v) \<longrightarrow>
            get_swath_data self item fill = Inr (array_div d s)) \<and>
         elems (array_div d s) = map (\<lambda>x. fdiv x s) (elems d) \<and>
         shape (array_div d s) = shape d"
proof -
  have main: "get_swath_data self item fill = Inr (array_fill_where_eq (array_div d s) v fill)"
    using assms by (simp add: get_swath_data_def apply_scale_def apply_fill_def)
  have same: "array_fill_where_eq (array_div d s) v fill = array_div d s"
    if "\<forall>x \<in> set (elems d). \<not> feq (fdiv x s) v"
    using that by (simp add: array_fill_where_eq_def array_div_def)
  show ?thesis
    using main same by (simp add: array_div_def)
qed

theorem get_swath_data_scale_then_fill_witness:
  "get_swath_data (example_reader (example_granule [1, 2] [4, - 1998]) 0) RR_VAR NaN
     = Inr \<lparr>shape = [1, 2], elems = [F 2, NaN]\<rparr> \<and>
   get_swath_data (example_reader (example_granule [1, 2] [4, - 999]) 0) RR_VAR NaN
     = Inr \<lparr>shape = [1, 2], elems = [F 2, F (- 999 / 2)]\<rparr>"
proof -
  let ?r = "example_reader (example_granule [1, 2] [4, - 1998]) 0"
  let ?q = "example_reader (example_granule [1, 2] [4, - 999]) 0"
  have raw: "raw_swath ?r RR_VAR = Inr \<lparr>shape = [1, 2], elems = [F 4, F (- 1998)]\<rparr>"
    by (simp add: decode names examples)
  have sc: "get_scale_value ?r RR_VAR = Inr (Some 2)"
    by (simp add: decode names examples)
  have fl: "get_fill_value ?r RR_VAR = Inr (Some (- 999))"
    by (simp add: decode names examples)
  have raw': "raw_swath ?q RR_VAR = Inr \<lparr>shape = [1, 2], elems = [F 4, F (- 999)]\<rparr>"
    by (simp add: decode names examples)
  have sc': "get_scale_value ?q RR_VAR = Inr (Some 2)"
    by (simp add: decode names examples)
  have fl': "get_fill_value ?q RR_VAR = Inr (Some (- 999))"
    by (simp add: decode names examples)
  have "get_swath_data ?r RR_VAR NaN = Inr \<lparr>shape = [1, 2], elems = [F 2, NaN]\<rparr>"
    using get_swath_data_scale_then_fill [OF raw sc _ fl, of NaN]
    by (simp add: array_fill_where_eq_def array_div_def)
  moreover have "get_swath_data ?q RR_VAR NaN = Inr \<lparr>shape = [1, 2], elems = [F 2, F (- 999 / 2)]\<rparr>"
    using get_swath_data_scale_then_fill [OF raw' sc' _ fl', of NaN]
    by (simp add: array_fill_where_eq_def array_div_def)
  ultimately show ?thesis by simp
qed

text \<open>
  C3 as stated fails where the fill value or the scale factor is 0. With scale 2 and fill
  value 0, the element 0 equals the fill value after the division and is not replaced; with
  scale 0 the raw array is returned undivided.
\<close>

theorem get_swath_data_zero_fill_counterexample:
  "get_scale_value (example_reader (example_dataset \<lparr>shape = [1, 2], elems = [F 0, F 4]\<rparr> 2 (Some 0) [238 / 10, 882 / 10] bt2) 0) RR_VAR
     = Inr (Some 2) \<and>
   get_fill_value (example_reader (example_dataset \<lparr>shape = [1, 2], elems = [F 0, F 4]\<rparr> 2 (Some 0) [238 / 10, 882 / 10] bt2) 0) RR_VAR
     = Inr (Some 0) \<and>
   get_swath_data (example_reader (example_dataset \<lparr>shape = [1, 2], elems = [F 0, F 4]\<rparr> 2 (Some 0) [238 / 10, 882 / 10] bt2) 0) RR_VAR NaN
     = Inr \<lparr>shape = [1, 2], elems = [F 0, F 2]\<rparr> \<and>
   get_swath_data (example_reader (example_dataset \<lparr>shape = [1, 2], elems = [F 0, F 4]\<rparr> 2 (Some 0) [238 / 10, 882 / 10] bt2) 0) RR_VAR NaN
     \<noteq> Inr (array_fill_where_eq (array_div \<lparr>shape = [1, 2], elems = [F 0, F 4]\<rparr> 2) 0 NaN) \<and>
   get_scale_value (example_reader (example_dataset \<lparr>shape = [1, 2], elems = [F 6, F 4]\<rparr> 0 (Some (- 999)) [238 / 10, 882 / 10] bt2) 0) RR_VAR
     = Inr (Some 0) \<and>
   get_swath_data (example_reader (example_dataset \<lparr>shape = [1, 2], elems = [F 6, F 4]\<rparr> 0 (Some (- 999)) [238 / 10, 882 / 10] bt2) 0) RR_VAR NaN
     = Inr \<lparr>shape = [1, 2], elems = [F 6, F 4]\<rparr>"
  by (simp add: decode names examples)

subsection \<open>Frequency selection\<close>

lemma filter_by_frequency_absent:
  assumes "getitem self FREQ_VAR = Inr freq_var"
    and "\<forall>x \<in> set (elems (var_array freq_var)). \<not> feq x freq"
  shows "filter_by_frequency self item arr freq = Inl ValueError_Frequency"
proof -
  have "filter (\<lambda>i. feq (elems (var_array freq_var) ! i) freq) [0..<length (elems (var_array freq_var))] = []"
    using assms(2) by (auto simp: filter_empty_conv)
  then have "nonzero0 (var_array freq_var) freq = []"
    by (simp add: nonzero0_def)
  with assms(1) show ?thesis
    by (simp add: filter_by_frequency_def)
qed

text \<open>
  C4. The code at the failing input: a brightness-temperature variable of two channels whose
  frequency axis has 88.2 at index 0. \<^verbatim>\<open>numpy.nonzero\<close> finds the index, the array \<open>[0]\<close>, whose
  truth value is that of its element, false; \<open>get_swath_data\<close> raises the \<open>ValueError\<close>
  "Frequency ... does not exist" for a frequency that is on the axis.
\<close>

theorem get_swath_data_frequency_at_index_0:
  "nonzero0 \<lparr>shape = [2], elems = map F [882 / 10, 1655 / 10]\<rparr> (882 / 10) = [0] \<and>
   get_swath_data
     (example_reader (example_dataset \<lparr>shape = [1, 1], elems = [F 0]\<rparr> 2 (Some (- 999)) [882 / 10, 1655 / 10] bt2) 0)
     BT_88_VAR NaN
   = Inl ValueError_Frequency"
  by (simp add: decode names examples)

section \<open>The ensemble\<close>

text \<open>
  C7. On a finalized ensemble \<open>add_file\<close> raises the \<open>RuntimeError\<close> "File reader has been
  finalized and no more files can be added" and leaves the ensemble as it was, whatever the
  file.
\<close>

theorem add_file_after_finalize:
  "files_finalized self \<Longrightarrow> add_file w self fn = (Inl RuntimeError_Finalized, self)"
  by (simp add: add_file_def)

theorem add_file_after_finalize_witness:
  "files_finalized \<lparr>file_readers = [example_reader (example_granule [1, 1] [4]) 0], files_finalized = True\<rparr> \<and>
   add_file (example_world [''granule.nc''] [''/data/granule.nc'' \<mapsto> example_granule [1, 1] [4]])
     \<lparr>file_readers = [example_reader (example_granule [1, 1] [4]) 0], files_finalized = True\<rparr>
     ''/data/granule.nc''
   = (Inl RuntimeError_Finalized,
      \<lparr>file_readers = [example_reader (example_granule [1, 1] [4]) 0], files_finalized = True\<rparr>)"
  using add_file_after_finalize
    [of "\<lparr>file_readers = [example_reader (example_granule [1, 1] [4]) 0], files_finalized = True\<rparr>"
        "example_world [''granule.nc''] [''/data/granule.nc'' \<mapsto> example_granule [1, 1] [4]]"
        "''/data/granule.nc''"]
  by simp

lemma lt_readers: "MIRSFileReader_lt a (PyReader b) = Inl TypeError"
  by (simp add: MIRSFileReader_lt_def MIRSFileReader_compare_def)

lemma sorted_py_readers_two:
  "sorted_py (\<lambda>a b. MIRSFileReader_lt a (PyReader b)) (x # y # ys) = Inl TypeError"
  by (simp add: sorted_py_def lt_readers)

lemma sorted_py_short: "length xs \<le> 1 \<Longrightarrow> sorted_py lt xs = Inr xs"
  by (cases xs) (auto simp: sorted_py_def)

lemma finalize_files_two:
  "file_readers self = x # y # ys \<Longrightarrow> finalize_files self = (Inl TypeError, self)"
  by (simp add: finalize_files_def sorted_py_readers_two)

text \<open>
  C2. The code at the failing input: an open ensemble of two granules, the first beginning
  at 0 and the second at 300. Comparing the first reader with the second raises \<open>TypeError\<close>
  (\<^verbatim>\<open>_compare\<close> reads \<^verbatim>\<open>other.start_time\<close>, which no reader has), while comparing it with
  an object that has a \<^verbatim>\<open>start_time\<close> succeeds. So \<open>finalize_files\<close> does not sort the two
  readers: it ends in the \<open>TypeError\<close> with the ensemble still open.
\<close>

theorem finalize_files_two_granules:
  "MIRSFileReader_lt (example_reader (example_granule [3, 4] (replicate 12 1)) 0)
     (PyReader (example_reader (example_granule [2, 4] (replicate 8 1)) 300)) = Inl TypeError \<and>
   MIRSFileReader_lt (example_reader (example_granule [3, 4] (replicate 12 1)) 0)
     (PyObject [''start_time'' \<mapsto> 300]) = Inr True \<and>
   finalize_files
     \<lparr>file_readers = [example_reader (example_granule [3, 4] (replicate 12 1)) 0,
                      example_reader (example_granule [2, 4] (replicate 8 1)) 300],
      files_finalized = False\<rparr>
   = (Inl TypeError,
      \<lparr>file_readers = [example_reader (example_granule [3, 4] (replicate 12 1)) 0,
                      example_reader (example_granule [2, 4] (replicate 8 1)) 300],
      files_finalized = False\<rparr>)"
  by (simp add: lt_readers finalize_files_two MIRSFileReader_lt_def MIRSFileReader_compare_def
      example_reader_def)

subsection \<open>Aggregation\<close>





lemma example_granule_rr:
  "get_swath_data (example_reader (example_granule shp rr) t) RR_VAR NaN
     = Inr \<lparr>shape = shp, elems = map (\<lambda>x. if x / 2 = - 999 then NaN else F (x / 2)) rr\<rparr>"
  by (simp add: decode names examples comp_def)

lemma example_open_w: "open_w (example_world names files) p = (p \<noteq> [])"
  by (simp add: example_world_def)




section \<open>Discovery of the granule files\<close>




lemma set_update_subset: "set (AList.update k v al) \<subseteq> insert (k, v) (set al)"
  by (induction al) auto



lemma example_handles: "handles_file (example_granule shp rr) = Inr True"
  by (simp add: handles_file_def examples)

lemma foreign_handles: "handles_file foreign_dataset = Inl (AttributeError ''project'')"
  by (simp add: handles_file_def foreign_dataset_def)





text \<open>
  C8. The code at the failing input: the directory \<^verbatim>\<open>/data\<close> holds a valid granule and
  \<^verbatim>\<open>other.nc\<close>, a netCDF file of another project with no \<^verbatim>\<open>project\<close> attribute. The
  granule is recognized; the other file is not skipped: reading its \<^verbatim>\<open>project\<close> raises
  \<open>AttributeError\<close>, which \<open>handles_file\<close> does not catch, and the constructor ends with it.
\<close>

theorem Frontend_init_foreign_netcdf:
  "get_file_type (example_world [''granule.nc'', ''other.nc'']
      [''/data/granule.nc'' \<mapsto> example_granule [1, 1] [4],
       ''/data/other.nc'' \<mapsto> foreign_dataset]) ''/data/granule.nc'' = Inr (Some ''MIRS_IMG'') \<and>
   Frontend_init (example_world [''granule.nc'', ''other.nc'']
      [''/data/granule.nc'' \<mapsto> example_granule [1, 1] [4],
       ''/data/other.nc'' \<mapsto> foreign_dataset]) [''/data'']
     = Inl (AttributeError ''project'')"
  by (simp add: Frontend_init_def yield_file_def get_file_type_def endswith_def path_join_def
      example_world_def example_handles foreign_handles FILE_CLASSES_def FT_IMG_def
      recognize_def)

section \<open>Scene creation: dependencies\<close>

lemmas product_names =
  PRODUCT_RAIN_RATE_def PRODUCT_BT_88_def PRODUCT_LATITUDE_def PRODUCT_LONGITUDE_def

lemma raw_products_of_dependent:
  "p \<in> set xs \<Longrightarrow> map_of products p = Some pd \<Longrightarrow> dependencies pd \<noteq> [] \<Longrightarrow>
   \<exists>e. raw_products_of products xs = Inl e \<and>
       (e = NotImplementedError_Dependencies \<or>
        (\<exists>q \<in> set xs. e = KeyError q \<and> map_of products q = None))"
proof (induction xs)
  case Nil
  then show ?case by simp
next
  case (Cons x xs)
  show ?case
  proof (cases "map_of products x")
    case None
    then show ?thesis by simp
  next
    case (Some xd)
    show ?thesis
    proof (cases "dependencies xd = []")
      case False
      with Some show ?thesis by simp
    next
      case True
      with Some Cons.prems have "p \<in> set xs" by auto
      from Cons.IH [OF this Cons.prems(2,3)] obtain e where
        "raw_products_of products xs = Inl e"
        "e = NotImplementedError_Dependencies \<or>
           (\<exists>q \<in> set xs. e = KeyError q \<and> map_of products q = None)"
        by blast
      with Some True show ?thesis by auto
    qed
  qed
qed

text \<open>
  C5, as the code has it. A request that names a product whose definition has dependencies
  always fails before any file is loaded or written, whatever files were recognized. With
  \<^verbatim>\<open>nprocs\<close> other than 1 it fails with the \<open>NotImplementedError\<close> of the first check, "...
  does not support multiple processes yet". With \<^verbatim>\<open>nprocs=1\<close> it fails with the
  \<open>NotImplementedError\<close> "Don't know how to handle products dependent on other products"
  when every requested name is a product of the catalogue; a requested name that is not
  raises \<open>KeyError\<close> if the loop meets it first. \<open>products\<close> is the catalogue: the module's own
  \<^verbatim>\<open>PRODUCTS\<close> registers no product with dependencies.
\<close>

theorem create_scene_dependent_product:
  assumes "p \<in> set ps" and "map_of products p = Some pd" and "dependencies pd \<noteq> []"
    and "set (set_order w ps) = set ps"
  shows "\<exists>e. create_scene products w self (Some ps) nprocs = (Inl e, []) \<and>
             (if nprocs \<noteq> 1 then e = NotImplementedError_Nprocs
              else (e = NotImplementedError_Dependencies \<or>
                    (\<exists>q \<in> set ps. e = KeyError q \<and> map_of products q = None)) \<and>
                   ((\<forall>q \<in> set ps. map_of products q \<noteq> None) \<longrightarrow>
                      e = NotImplementedError_Dependencies))"
proof (cases "nprocs = 1")
  case False
  then show ?thesis by (simp add: create_scene_def)
next
  case True
  from assms have "p \<in> set (set_order w ps)" by simp
  from raw_products_of_dependent [OF this assms(2,3)] assms(4) obtain e where
    e: "raw_products_of products (set_order w ps) = Inl e"
    and kind: "e = NotImplementedError_Dependencies \<or>
           (\<exists>q \<in> set ps. e = KeyError q \<and> map_of products q = None)"
    by auto
  from e True have "create_scene products w self (Some ps) nprocs = (Inl e, [])"
    by (simp add: create_scene_def)
  with kind True show ?thesis by auto
qed

theorem create_scene_dependent_product_witness:
  "create_scene (add_product PRODUCTS derived_product)
     (example_world [''granule.nc''] [''/data/granule.nc'' \<mapsto> example_granule [1, 1] [4]])
     \<lparr>recognized_files = [(''MIRS_IMG'', [''/data/granule.nc''])]\<rparr>
     (Some [''rain_rate'', ''rain_rate_daily'']) 1
   = (Inl NotImplementedError_Dependencies, [])"
proof -
  let ?products = "add_product PRODUCTS derived_product"
  let ?w = "example_world [''granule.nc''] [''/data/granule.nc'' \<mapsto> example_granule [1, 1] [4]]"
  let ?ps = "[''rain_rate'', ''rain_rate_daily'']"
  have a: "''rain_rate_daily'' \<in> set ?ps" by simp
  have b: "map_of ?products ''rain_rate_daily'' = Some derived_product"
    by (simp add: add_product_def PRODUCTS_def derived_product_def product_names)
  have c: "dependencies derived_product \<noteq> []"
    by (simp add: derived_product_def)
  have d: "set (set_order ?w ?ps) = set ?ps"
    by (simp add: example_world_def)
  have known: "\<forall>q \<in> set ?ps. map_of ?products q \<noteq> None"
    by (simp add: add_product_def PRODUCTS_def derived_product_def product_names)
  from create_scene_dependent_product [OF a b c d, of _ 1] known show ?thesis
    by auto
qed

text \<open>
  C5 as stated fails in the kind of the error: the same request with \<^verbatim>\<open>nprocs=2\<close> fails
  with the \<open>NotImplementedError\<close> for multiple processes, and a request that also names
  \<^verbatim>\<open>nope\<close>, which is no product, fails with \<open>KeyError\<close> where the loop meets that name
  first.
\<close>

theorem create_scene_dependent_product_other_errors:
  "create_scene (add_product PRODUCTS derived_product)
     (example_world [''granule.nc''] [''/data/granule.nc'' \<mapsto> example_granule [1, 1] [4]])
     \<lparr>recognized_files = [(''MIRS_IMG'', [''/data/granule.nc''])]\<rparr>
     (Some [''rain_rate_daily'']) 2
   = (Inl NotImplementedError_Nprocs, []) \<and>
   create_scene (add_product PRODUCTS derived_product)
     (example_world [''granule.nc''] [''/data/granule.nc'' \<mapsto> example_granule [1, 1] [4]])
     \<lparr>recognized_files = [(''MIRS_IMG'', [''/data/granule.nc''])]\<rparr>
     (Some [''nope'', ''rain_rate_daily'']) 1
   = (Inl (KeyError ''nope''), [])"
  by (simp add: create_scene_def example_world_def add_product_def PRODUCTS_def
      derived_product_def product_names)

section \<open>Scene creation: geolocation\<close>

lemma write_var_to_flat_binary_name:
  "write_var_to_flat_binary w m item fname = (Inr shp, fs) \<Longrightarrow> map fst fs = [fname]"
  by (auto simp: write_var_to_flat_binary_def split: prod.splits sum.splits if_splits)

lemma create_raw_swath_object_ok:
  assumes "create_raw_swath_object w products p readers created = (Inr sw, fs)"
  shows "map fst fs = [p @ ''.dat''] \<and> product_name (sp_fields sw) = p \<and>
         longitude sw = (if p \<in> {PRODUCT_LATITUDE, PRODUCT_LONGITUDE} then None
                         else created PRODUCT_LONGITUDE) \<and>
         latitude sw = (if p \<in> {PRODUCT_LATITUDE, PRODUCT_LONGITUDE} then None
                        else created PRODUCT_LATITUDE)"
  using assms
  by (auto simp: create_raw_swath_object_def
      split: option.splits prod.splits sum.splits if_splits
      dest: write_var_to_flat_binary_name)

lemma raw_products_of_ok: "raw_products_of products xs = Inr raw \<Longrightarrow> raw = xs"
  by (induction xs arbitrary: raw) (auto split: option.splits if_splits sum.splits)

lemma load_geo_products_Cons:
  assumes "load_geo_products w products readers raw (g # gs) st = (Inr (), st')"
  shows "\<exists>sw fs.
           create_raw_swath_object w products g readers (products_created st) = (Inr sw, fs) \<and>
           load_geo_products w products readers raw gs
             \<lparr>products_created = (products_created st)(g \<mapsto> sw),
              scene = (if g \<in> set raw then AList.update g sw (scene st) else scene st),
              written = written st @ fs\<rparr> = (Inr (), st')"
proof (cases "create_raw_swath_object w products g readers (products_created st)")
  case (Pair res fs)
  show ?thesis
  proof (cases res)
    case (Inl e)
    with Pair assms show ?thesis by simp
  next
    case (Inr sw)
    with Pair assms show ?thesis by simp
  qed
qed

lemma load_raw_products_Cons:
  assumes "load_raw_products w products readers (p # raw) st = (Inr (), st')"
    and "p \<notin> dom (products_created st)"
  shows "\<exists>sw fs.
           create_raw_swath_object w products p readers (products_created st) = (Inr sw, fs) \<and>
           load_raw_products w products readers raw
             \<lparr>products_created = (products_created st)(p \<mapsto> sw),
              scene = AList.update p sw (scene st),
              written = written st @ fs\<rparr> = (Inr (), st')"
proof (cases "create_raw_swath_object w products p readers (products_created st)")
  case (Pair res fs)
  show ?thesis
  proof (cases res)
    case (Inl e)
    with Pair assms show ?thesis by simp
  next
    case (Inr sw)
    with Pair assms show ?thesis by simp
  qed
qed

lemma load_geo_products_ok:
  assumes "load_geo_products w products readers raw [PRODUCT_LATITUDE, PRODUCT_LONGITUDE]
             \<lparr>products_created = Map.empty, scene = [], written = []\<rparr> = (Inr (), st)"
  obtains lat lon where
    "products_created st PRODUCT_LATITUDE = Some lat"
    and "products_created st PRODUCT_LONGITUDE = Some lon"
    and "dom (products_created st) = {PRODUCT_LATITUDE, PRODUCT_LONGITUDE}"
    and "scene st = (if PRODUCT_LATITUDE \<in> set raw then [(PRODUCT_LATITUDE, lat)] else []) @
                    (if PRODUCT_LONGITUDE \<in> set raw then [(PRODUCT_LONGITUDE, lon)] else [])"
    and "map fst (written st) = [PRODUCT_LATITUDE @ ''.dat'', PRODUCT_LONGITUDE @ ''.dat'']"
    and "product_name (sp_fields lat) = PRODUCT_LATITUDE"
    and "longitude lat = None" and "latitude lat = None"
    and "product_name (sp_fields lon) = PRODUCT_LONGITUDE"
    and "longitude lon = None" and "latitude lon = None"
proof -
  from load_geo_products_Cons [OF assms] obtain lat fs1 where
    c1: "create_raw_swath_object w products PRODUCT_LATITUDE readers Map.empty = (Inr lat, fs1)"
    and s1: "load_geo_products w products readers raw [PRODUCT_LONGITUDE]
               \<lparr>products_created = [PRODUCT_LATITUDE \<mapsto> lat],
                scene = (if PRODUCT_LATITUDE \<in> set raw
                         then AList.update PRODUCT_LATITUDE lat [] else []),
                written = fs1\<rparr> = (Inr (), st)"
    by (auto simp del: load_geo_products.simps cong: if_cong)
  from load_geo_products_Cons [OF s1] obtain lon fs2 where
    c2: "create_raw_swath_object w products PRODUCT_LONGITUDE readers [PRODUCT_LATITUDE \<mapsto> lat]
           = (Inr lon, fs2)"
    and st: "st = \<lparr>products_created = [PRODUCT_LATITUDE \<mapsto> lat, PRODUCT_LONGITUDE \<mapsto> lon],
           scene = (if PRODUCT_LONGITUDE \<in> set raw
                    then AList.update PRODUCT_LONGITUDE lon
                           (if PRODUCT_LATITUDE \<in> set raw
                            then AList.update PRODUCT_LATITUDE lat [] else [])
                    else (if PRODUCT_LATITUDE \<in> set raw
                          then AList.update PRODUCT_LATITUDE lat [] else [])),
           written = fs1 @ fs2\<rparr>"
    by (auto simp del: load_geo_products.simps(2) cong: if_cong)
  note r1 = create_raw_swath_object_ok [OF c1] and r2 = create_raw_swath_object_ok [OF c2]
  have ne: "PRODUCT_LATITUDE \<noteq> PRODUCT_LONGITUDE"
    by (simp add: product_names)
  show ?thesis
    by (rule that [of lat lon]) (insert r1 r2 ne, auto simp: st)
qed

lemma load_raw_products_ok:
  assumes "load_raw_products w products readers raw st = (Inr (), st')"
    and "products_created st PRODUCT_LATITUDE = Some lat"
    and "products_created st PRODUCT_LONGITUDE = Some lon"
  shows "fst ` set (scene st') = fst ` set (scene st) \<union> (set raw - dom (products_created st)) \<and>
         (\<exists>new. written st' = written st @ new \<and>
            (\<forall>f \<in> set new. \<exists>p \<in> set raw - dom (products_created st). fst f = p @ ''.dat'')) \<and>
         (\<forall>kv \<in> set (scene st').
            kv \<in> set (scene st) \<or>
            (fst kv \<notin> dom (products_created st) \<and> product_name (sp_fields (snd kv)) = fst kv \<and>
             longitude (snd kv) = Some lon \<and> latitude (snd kv) = Some lat))"
  using assms
proof (induction raw arbitrary: st)
  case Nil
  then show ?case by simp
next
  case (Cons p raw)
  show ?case
  proof (cases "p \<in> dom (products_created st)")
    case True
    with Cons.prems have "load_raw_products w products readers raw st = (Inr (), st')"
      by simp
    from Cons.IH [OF this Cons.prems(2,3)] True show ?thesis
      by auto
  next
    case False
    from load_raw_products_Cons [OF Cons.prems(1) False] obtain sw fs where
      c: "create_raw_swath_object w products p readers (products_created st) = (Inr sw, fs)"
      and s1: "load_raw_products w products readers raw
             \<lparr>products_created = (products_created st)(p \<mapsto> sw),
              scene = AList.update p sw (scene st),
              written = written st @ fs\<rparr> = (Inr (), st')"
      by blast
    define st1 where "st1 = \<lparr>products_created = (products_created st)(p \<mapsto> sw),
                 scene = AList.update p sw (scene st), written = written st @ fs\<rparr>"
    have pc1: "products_created st1 = (products_created st)(p \<mapsto> sw)"
      and sc1: "scene st1 = AList.update p sw (scene st)"
      and wr1: "written st1 = written st @ fs"
      by (simp_all add: st1_def)
    from False Cons.prems(2,3) have pgeo: "p \<noteq> PRODUCT_LATITUDE" "p \<noteq> PRODUCT_LONGITUDE"
      by auto
    then have keep: "products_created st1 PRODUCT_LATITUDE = Some lat"
      "products_created st1 PRODUCT_LONGITUDE = Some lon"
      using Cons.prems(2,3) by (simp_all add: pc1)
    from s1 have s1': "load_raw_products w products readers raw st1 = (Inr (), st')"
      by (simp add: st1_def)
    have dom1: "dom (products_created st1) = insert p (dom (products_created st))"
      by (simp add: pc1)
    have keys1: "fst ` set (scene st1) = insert p (fst ` set (scene st))"
      by (simp add: sc1 dom_update)
    from Cons.IH [OF s1' keep] obtain new where
      ih_keys: "fst ` set (scene st') = fst ` set (scene st1) \<union> (set raw - dom (products_created st1))"
      and ih_written: "written st' = written st1 @ new"
      and ih_new: "\<forall>f \<in> set new. \<exists>q \<in> set raw - dom (products_created st1). fst f = q @ ''.dat''"
      and ih_entries: "\<forall>kv \<in> set (scene st').
            kv \<in> set (scene st1) \<or>
            (fst kv \<notin> dom (products_created st1) \<and> product_name (sp_fields (snd kv)) = fst kv \<and>
             longitude (snd kv) = Some lon \<and> latitude (snd kv) = Some lat)"
      by blast
    from create_raw_swath_object_ok [OF c] pgeo Cons.prems(2,3) have sw:
      "product_name (sp_fields sw) = p" "longitude sw = Some lon" "latitude sw = Some lat"
      "map fst fs = [p @ ''.dat'']"
      by simp_all
    have keys: "fst ` set (scene st') = fst ` set (scene st) \<union> (set (p # raw) - dom (products_created st))"
      using ih_keys False by (auto simp: dom1 keys1)
    have files: "\<exists>new'. written st' = written st @ new' \<and>
       (\<forall>f \<in> set new'. \<exists>q \<in> set (p # raw) - dom (products_created st). fst f = q @ ''.dat'')"
    proof (intro exI conjI ballI)
      show "written st' = written st @ (fs @ new)" using ih_written by (simp add: wr1)
    next
      fix f assume "f \<in> set (fs @ new)"
      then consider "f \<in> set fs" | "f \<in> set new" by auto
      then show "\<exists>q \<in> set (p # raw) - dom (products_created st). fst f = q @ ''.dat''"
      proof cases
        case 1
        then have "fst f \<in> set (map fst fs)" by auto
        with sw(4) False show ?thesis by auto
      next
        case 2
        with ih_new obtain q where "q \<in> set raw - dom (products_created st1)" "fst f = q @ ''.dat''"
          by blast
        then show ?thesis by (auto simp: dom1)
      qed
    qed
    have entries: "\<forall>kv \<in> set (scene st').
            kv \<in> set (scene st) \<or>
            (fst kv \<notin> dom (products_created st) \<and> product_name (sp_fields (snd kv)) = fst kv \<and>
             longitude (snd kv) = Some lon \<and> latitude (snd kv) = Some lat)"
    proof
      fix kv assume "kv \<in> set (scene st')"
      with ih_entries consider "kv \<in> set (AList.update p sw (scene st))"
        | "fst kv \<notin> dom (products_created st1)" "product_name (sp_fields (snd kv)) = fst kv"
          "longitude (snd kv) = Some lon" "latitude (snd kv) = Some lat"
        by (auto simp: sc1)
      then show "kv \<in> set (scene st) \<or>
            (fst kv \<notin> dom (products_created st) \<and> product_name (sp_fields (snd kv)) = fst kv \<and>
             longitude (snd kv) = Some lon \<and> latitude (snd kv) = Some lat)"
      proof cases
        case 1
        with set_update_subset [of p sw "scene st"]
        have "kv = (p, sw) \<or> kv \<in> set (scene st)" by auto
        with sw False show ?thesis by auto
      next
        case 2
        then show ?thesis by (auto simp: dom1)
      qed
    qed
    from keys files entries show ?thesis by blast
  qed
qed

lemma available_PRODUCTS: "available_product_names PRODUCTS = [PRODUCT_RAIN_RATE, PRODUCT_BT_88]"
  by (simp add: available_product_names_def PRODUCTS_def add_product_def product_names)

lemma create_scene_ok:
  assumes ok: "create_scene products w self requested 1 = (Inr sc, files)"
  shows "\<exists>raw readers st st'.
           raw_products_of products
             (set_order w (case requested of
                             None \<Rightarrow> available_product_names products | Some ps \<Rightarrow> ps)) = Inr raw \<and>
           load_geo_products w products readers raw [PRODUCT_LATITUDE, PRODUCT_LONGITUDE]
             \<lparr>products_created = Map.empty, scene = [], written = []\<rparr> = (Inr (), st) \<and>
           load_raw_products w products readers raw st = (Inr (), st') \<and>
           sc = scene st' \<and> files = written st'"
proof (cases "raw_products_of products
             (set_order w (case requested of
                             None \<Rightarrow> available_product_names products | Some ps \<Rightarrow> ps))")
  case (Inl e)
  with ok show ?thesis by (simp add: create_scene_def)
next
  case raw: (Inr raw)
  show ?thesis
  proof (cases "load_files w (recognized_files self) Map.empty")
    case (Inl e)
    with ok raw show ?thesis by (simp add: create_scene_def)
  next
    case readers: (Inr readers)
    obtain r1 st where geo:
      "load_geo_products w products readers raw [PRODUCT_LATITUDE, PRODUCT_LONGITUDE]
         \<lparr>products_created = Map.empty, scene = [], written = []\<rparr> = (r1, st)"
      by (rule prod.exhaust)
    obtain r2 st' where rest: "load_raw_products w products readers raw st = (r2, st')"
      by (rule prod.exhaust)
    from ok raw readers geo rest have "r1 = Inr () \<and> r2 = Inr () \<and> sc = scene st' \<and> files = written st'"
      by (cases r1; cases r2) (simp_all add: create_scene_def del: load_geo_products.simps)
    with raw geo rest show ?thesis by blast
  qed
qed

lemma example_init:
  "MIRSFileReader_init
     (example_world names [''/data/granule.nc'' \<mapsto> example_granule shp rr]) ''/data/granule.nc''
   = Inr (example_reader (example_granule shp rr) 0)"
  by (simp add: MIRSFileReader_init_def handles_file_def text_attr_def time_attr_def
      num_attr_def basename_def example_reader_def example_dataset_def example_granule_def
      example_world_def)

lemma example_multi:
  "MIRSMultiReader_init
     (example_world names [''/data/granule.nc'' \<mapsto> example_granule shp rr]) [''/data/granule.nc'']
   = Inr \<lparr>file_readers = [example_reader (example_granule shp rr) 0], files_finalized = True\<rparr>"
  by (simp add: MIRSMultiReader_init_def add_file_def example_init finalize_files_def
      sorted_py_def)

lemma example_granule_lat:
  "get_swath_data (example_reader (example_granule shp rr) t) LAT_VAR NaN
     = Inr \<lparr>shape = shp, elems = map (\<lambda>x. F 45) rr\<rparr>"
  by (simp add: decode names examples comp_def)

lemma example_granule_lon:
  "get_swath_data (example_reader (example_granule shp rr) t) LON_VAR NaN
     = Inr \<lparr>shape = shp, elems = map (\<lambda>x. F 90) rr\<rparr>"
  by (simp add: decode names examples comp_def)

lemma example_set_order: "set_order (example_world names files) = remdups"
  by (simp add: example_world_def)

lemma example_reader_fields:
  "satellite (example_reader nc t) = ''npp''"
  "instrument (example_reader nc t) = ''atms''"
  "begin_time (example_reader nc t) = t"
  "end_time (example_reader nc t) = t + 300"
  "x_res (example_reader nc t) = 1 / 2"
  "y_res (example_reader nc t) = 1 / 2"
  "filepath (example_reader nc t) = ''/data/granule.nc''"
  by (simp_all add: example_reader_def)

lemma example_writes:
  "fname \<noteq> [] \<Longrightarrow>
   write_var_to_flat_binary (example_world names files)
     \<lparr>file_readers = [example_reader (example_granule [r, c] rr) t], files_finalized = True\<rparr>
     LAT_VAR fname = (Inr [r, c], [(fname, map (\<lambda>x. F 45) rr)])"
  "fname \<noteq> [] \<Longrightarrow>
   write_var_to_flat_binary (example_world names files)
     \<lparr>file_readers = [example_reader (example_granule [r, c] rr) t], files_finalized = True\<rparr>
     LON_VAR fname = (Inr [r, c], [(fname, map (\<lambda>x. F 90) rr)])"
  "fname \<noteq> [] \<Longrightarrow>
   write_var_to_flat_binary (example_world names files)
     \<lparr>file_readers = [example_reader (example_granule [r, c] rr) t], files_finalized = True\<rparr>
     RR_VAR fname
   = (Inr [r, c], [(fname, map (\<lambda>x. if x / 2 = - 999 then NaN else F (x / 2)) rr)])"
  by (simp_all add: write_var_to_flat_binary_def example_granule_lat example_granule_lon
      example_granule_rr FileAppender_append_def FileAppender_init_def example_open_w)

lemma example_scene:
  "\<exists>sc files.
     create_scene PRODUCTS
       (example_world [''granule.nc''] [''/data/granule.nc'' \<mapsto> example_granule [1, 1] [4]])
       \<lparr>recognized_files = [(FT_IMG, [''/data/granule.nc''])]\<rparr>
       (Some [''rain_rate'', ''latitude'']) 1 = (Inr sc, files) \<and>
     map fst sc = [''latitude'', ''rain_rate''] \<and>
     files = [(''latitude.dat'', [F 45]), (''longitude.dat'', [F 90]), (''rain_rate.dat'', [F 2])]"
  by (simp add: create_scene_def example_set_order example_multi FILE_CLASSES_def
      PRODUCTS_def add_product_def product_names create_raw_swath_object_def
      example_writes example_reader_fields first_reader_def multi_end_time_def
      last_reader_def filepaths_def)

text \<open>
  C6. Whenever \<open>create_scene\<close> returns a scene (for the module's \<^verbatim>\<open>PRODUCTS\<close>), the first
  two files it has written are \<^verbatim>\<open>latitude.dat\<close> and \<^verbatim>\<open>longitude.dat\<close>, and every later file
  belongs to a product of the scene that is neither; the latitude and the longitude product
  carry no companions; either is in the scene exactly when the caller's list names it (with
  no list given, neither is); and every other product of the scene carries the latitude and
  the longitude product as its companions.
\<close>

theorem create_scene_geoproducts:
  assumes ok: "create_scene PRODUCTS w self requested 1 = (Inr sc, files)"
    and ord: "set (set_order w (case requested of
                                  None \<Rightarrow> available_product_names PRODUCTS | Some ps \<Rightarrow> ps))
              = set (case requested of
                       None \<Rightarrow> available_product_names PRODUCTS | Some ps \<Rightarrow> ps)"
  shows "\<exists>lat lon rest.
           map fst files = (PRODUCT_LATITUDE @ ''.dat'') # (PRODUCT_LONGITUDE @ ''.dat'') # rest \<and>
           (\<forall>f \<in> set rest. \<exists>p \<in> fst ` set sc.
              p \<noteq> PRODUCT_LATITUDE \<and> p \<noteq> PRODUCT_LONGITUDE \<and> f = p @ ''.dat'') \<and>
           product_name (sp_fields lat) = PRODUCT_LATITUDE \<and>
           longitude lat = None \<and> latitude lat = None \<and>
           product_name (sp_fields lon) = PRODUCT_LONGITUDE \<and>
           longitude lon = None \<and> latitude lon = None \<and>
           (PRODUCT_LATITUDE \<in> fst ` set sc \<longleftrightarrow>
              (\<exists>ps. requested = Some ps \<and> PRODUCT_LATITUDE \<in> set ps)) \<and>
           (PRODUCT_LONGITUDE \<in> fst ` set sc \<longleftrightarrow>
              (\<exists>ps. requested = Some ps \<and> PRODUCT_LONGITUDE \<in> set ps)) \<and>
           (\<forall>kv \<in> set sc.
              product_name (sp_fields (snd kv)) = fst kv \<and>
              (if fst kv = PRODUCT_LATITUDE then snd kv = lat
               else if fst kv = PRODUCT_LONGITUDE then snd kv = lon
               else latitude (snd kv) = Some lat \<and> longitude (snd kv) = Some lon))"
proof -
  define ps where "ps = (case requested of
                           None \<Rightarrow> available_product_names PRODUCTS | Some ps \<Rightarrow> ps)"
  from create_scene_ok [OF ok] obtain raw readers st st' where
    raw: "raw_products_of PRODUCTS (set_order w ps) = Inr raw"
    and geo: "load_geo_products w PRODUCTS readers raw [PRODUCT_LATITUDE, PRODUCT_LONGITUDE]
                \<lparr>products_created = Map.empty, scene = [], written = []\<rparr> = (Inr (), st)"
    and rest: "load_raw_products w PRODUCTS readers raw st = (Inr (), st')"
    and sc: "sc = scene st'" and files: "files = written st'"
    unfolding ps_def by blast
  from raw_products_of_ok [OF raw] ord have raw_set: "set raw = set ps"
    by (simp add: ps_def)
  from geo obtain lat lon where
    lat: "products_created st PRODUCT_LATITUDE = Some lat"
    and lon: "products_created st PRODUCT_LONGITUDE = Some lon"
    and dom_st: "dom (products_created st) = {PRODUCT_LATITUDE, PRODUCT_LONGITUDE}"
    and scene_st: "scene st =
        (if PRODUCT_LATITUDE \<in> set raw then [(PRODUCT_LATITUDE, lat)] else []) @
        (if PRODUCT_LONGITUDE \<in> set raw then [(PRODUCT_LONGITUDE, lon)] else [])"
    and written_st: "map fst (written st) = [PRODUCT_LATITUDE @ ''.dat'', PRODUCT_LONGITUDE @ ''.dat'']"
    and lat_props: "product_name (sp_fields lat) = PRODUCT_LATITUDE"
      "longitude lat = None" "latitude lat = None"
    and lon_props: "product_name (sp_fields lon) = PRODUCT_LONGITUDE"
      "longitude lon = None" "latitude lon = None"
    by (rule load_geo_products_ok)
  from load_raw_products_ok [OF rest lat lon] obtain new where
    keys: "fst ` set (scene st') = fst ` set (scene st) \<union> (set raw - dom (products_created st))"
    and written: "written st' = written st @ new"
    and new: "\<forall>f \<in> set new. \<exists>p \<in> set raw - dom (products_created st). fst f = p @ ''.dat''"
    and entries: "\<forall>kv \<in> set (scene st').
            kv \<in> set (scene st) \<or>
            (fst kv \<notin> dom (products_created st) \<and> product_name (sp_fields (snd kv)) = fst kv \<and>
             longitude (snd kv) = Some lon \<and> latitude (snd kv) = Some lat)"
    by blast
  have ne: "PRODUCT_LATITUDE \<noteq> PRODUCT_LONGITUDE"
    by (simp add: product_names)
  have keys_st: "fst ` set (scene st) = set raw \<inter> {PRODUCT_LATITUDE, PRODUCT_LONGITUDE}"
    unfolding scene_st by auto
  have keys_sc: "fst ` set sc = set raw"
    unfolding sc keys dom_st keys_st by blast
  have order: "map fst files =
      (PRODUCT_LATITUDE @ ''.dat'') # (PRODUCT_LONGITUDE @ ''.dat'') # map fst new"
    by (simp add: files written written_st)
  have others: "\<forall>f \<in> set (map fst new). \<exists>p \<in> fst ` set sc.
              p \<noteq> PRODUCT_LATITUDE \<and> p \<noteq> PRODUCT_LONGITUDE \<and> f = p @ ''.dat''"
  proof
    fix f assume "f \<in> set (map fst new)"
    then obtain g where "g \<in> set new" "f = fst g" by auto
    with new obtain p where "p \<in> set raw - dom (products_created st)" "f = p @ ''.dat''"
      by blast
    then show "\<exists>p \<in> fst ` set sc.
              p \<noteq> PRODUCT_LATITUDE \<and> p \<noteq> PRODUCT_LONGITUDE \<and> f = p @ ''.dat''"
      unfolding keys_sc dom_st by blast
  qed
  have none: "g \<notin> set (available_product_names PRODUCTS)"
    if "g = PRODUCT_LATITUDE \<or> g = PRODUCT_LONGITUDE" for g
    using that by (auto simp: available_PRODUCTS product_names)
  have requested_iff: "g \<in> fst ` set sc \<longleftrightarrow> (\<exists>qs. requested = Some qs \<and> g \<in> set qs)"
    if "g = PRODUCT_LATITUDE \<or> g = PRODUCT_LONGITUDE" for g
  proof (cases requested)
    case None
    with none [OF that] show ?thesis by (simp add: keys_sc raw_set ps_def)
  next
    case (Some qs)
    then show ?thesis by (simp add: keys_sc raw_set ps_def)
  qed
  have companions: "\<forall>kv \<in> set sc.
              product_name (sp_fields (snd kv)) = fst kv \<and>
              (if fst kv = PRODUCT_LATITUDE then snd kv = lat
               else if fst kv = PRODUCT_LONGITUDE then snd kv = lon
               else latitude (snd kv) = Some lat \<and> longitude (snd kv) = Some lon)"
  proof
    fix kv assume "kv \<in> set sc"
    with entries sc consider "kv \<in> set (scene st)"
      | "fst kv \<notin> dom (products_created st)" "product_name (sp_fields (snd kv)) = fst kv"
        "longitude (snd kv) = Some lon" "latitude (snd kv) = Some lat"
      by blast
    then show "product_name (sp_fields (snd kv)) = fst kv \<and>
              (if fst kv = PRODUCT_LATITUDE then snd kv = lat
               else if fst kv = PRODUCT_LONGITUDE then snd kv = lon
               else latitude (snd kv) = Some lat \<and> longitude (snd kv) = Some lon)"
    proof cases
      case 1
      then have "kv = (PRODUCT_LATITUDE, lat) \<or> kv = (PRODUCT_LONGITUDE, lon)"
        unfolding scene_st by (auto split: if_splits)
      with lat_props lon_props ne show ?thesis by auto
    next
      case 2
      then show ?thesis unfolding dom_st by simp
    qed
  qed
  have geo_lat: "PRODUCT_LATITUDE \<in> fst ` set sc \<longleftrightarrow>
              (\<exists>ps. requested = Some ps \<and> PRODUCT_LATITUDE \<in> set ps)"
    by (rule requested_iff) simp
  have geo_lon: "PRODUCT_LONGITUDE \<in> fst ` set sc \<longleftrightarrow>
              (\<exists>ps. requested = Some ps \<and> PRODUCT_LONGITUDE \<in> set ps)"
    by (rule requested_iff) simp
  show ?thesis
    by (rule exI [of _ lat], rule exI [of _ lon], rule exI [of _ "map fst new"], intro conjI)
      (rule order others lat_props lon_props geo_lat geo_lon companions)+
qed

theorem create_scene_geoproducts_witness:
  "\<exists>sc files lat lon rr.
     create_scene PRODUCTS
       (example_world [''granule.nc''] [''/data/granule.nc'' \<mapsto> example_granule [1, 1] [4]])
       \<lparr>recognized_files = [(FT_IMG, [''/data/granule.nc''])]\<rparr>
       (Some [''rain_rate'', ''latitude'']) 1 = (Inr sc, files) \<and>
     map fst files = [''latitude.dat'', ''longitude.dat'', ''rain_rate.dat''] \<and>
     sc = [(''latitude'', lat), (''rain_rate'', rr)] \<and>
     latitude lat = None \<and> longitude lat = None \<and>
     latitude rr = Some lat \<and> longitude rr = Some lon \<and>
     product_name (sp_fields lon) = ''longitude'' \<and>
     latitude lon = None \<and> longitude lon = None"
proof -
  let ?w = "example_world [''granule.nc''] [''/data/granule.nc'' \<mapsto> example_granule [1, 1] [4]]"
  let ?self = "\<lparr>recognized_files = [(FT_IMG, [''/data/granule.nc''])]\<rparr>"
  let ?req = "Some [''rain_rate'', ''latitude'']"
  from example_scene obtain sc files where
    run: "create_scene PRODUCTS ?w ?self ?req 1 = (Inr sc, files)"
    and names: "map fst sc = [''latitude'', ''rain_rate'']"
    and files: "files = [(''latitude.dat'', [F 45]), (''longitude.dat'', [F 90]),
                         (''rain_rate.dat'', [F 2])]"
    by (elim exE conjE) (rule that; assumption)
  have ord: "set (set_order ?w (case ?req of
                                  None \<Rightarrow> available_product_names PRODUCTS | Some ps \<Rightarrow> ps))
              = set (case ?req of
                       None \<Rightarrow> available_product_names PRODUCTS | Some ps \<Rightarrow> ps)"
    by (simp add: example_set_order)
  from names obtain a b where sc: "sc = [(''latitude'', a), (''rain_rate'', b)]"
    by (auto simp: map_eq_Cons_conv)
  from create_scene_geoproducts [OF run ord] obtain lat lon where
    lat: "longitude lat = None" "latitude lat = None"
    and lon: "product_name (sp_fields lon) = PRODUCT_LONGITUDE"
      "longitude lon = None" "latitude lon = None"
    and entries: "\<forall>kv \<in> set sc.
              product_name (sp_fields (snd kv)) = fst kv \<and>
              (if fst kv = PRODUCT_LATITUDE then snd kv = lat
               else if fst kv = PRODUCT_LONGITUDE then snd kv = lon
               else latitude (snd kv) = Some lat \<and> longitude (snd kv) = Some lon)"
    by (elim exE conjE) (rule that; assumption)
  from entries have "a = lat" and "latitude b = Some lat" and "longitude b = Some lon"
    by (simp_all add: sc product_names)
  with run files sc lat lon show ?thesis
    by (simp add: product_names)
qed

end
